theory Spec2Isabelle
  imports Complex_Main "HOL-Library.Sublist"
begin

section \<open>Python string primitives\<close>

text \<open>
  A Python \<open>str\<close> is modelled as a \<open>string\<close>: a list of 8-bit characters, read as the
  code points 0 to 255 (Latin-1). The character classes below are those of Python 3 on
  these code points, for \<open>str\<close> methods and for \<open>re\<close> on \<open>str\<close> patterns alike; code
  points from 256 on are outside the type. \<open>k in s\<close> on strings is \<^const>\<open>sublist\<close>,
  \<open>s.startswith(k)\<close> is \<^const>\<open>prefix\<close>.
\<close>

text \<open>The ranges \<open>A-Z\<close>, \<open>a-z\<close> and \<open>0-9\<close>.\<close>

definition upper_chars :: string where
  "upper_chars = ''ABCDEFGHIJKLMNOPQRSTUVWXYZ''"

definition lower_chars :: string where
  "lower_chars = ''abcdefghijklmnopqrstuvwxyz''"

definition digit_chars :: string where
  "digit_chars = ''0123456789''"

text \<open>
  The cased letters beyond ASCII, 0xC0..0xDE without 0xD7 and, 0x20 further on, their
  lowercase forms 0xE0..0xFE without 0xF7, listed in step.
\<close>

definition latin_upper_chars :: string where
  "latin_upper_chars =
     [CHR 0xC0, CHR 0xC1, CHR 0xC2, CHR 0xC3, CHR 0xC4, CHR 0xC5, CHR 0xC6, CHR 0xC7,
      CHR 0xC8, CHR 0xC9, CHR 0xCA, CHR 0xCB, CHR 0xCC, CHR 0xCD, CHR 0xCE, CHR 0xCF,
      CHR 0xD0, CHR 0xD1, CHR 0xD2, CHR 0xD3, CHR 0xD4, CHR 0xD5, CHR 0xD6, CHR 0xD8,
      CHR 0xD9, CHR 0xDA, CHR 0xDB, CHR 0xDC, CHR 0xDD, CHR 0xDE]"

definition latin_lower_chars :: string where
  "latin_lower_chars =
     [CHR 0xE0, CHR 0xE1, CHR 0xE2, CHR 0xE3, CHR 0xE4, CHR 0xE5, CHR 0xE6, CHR 0xE7,
      CHR 0xE8, CHR 0xE9, CHR 0xEA, CHR 0xEB, CHR 0xEC, CHR 0xED, CHR 0xEE, CHR 0xEF,
      CHR 0xF0, CHR 0xF1, CHR 0xF2, CHR 0xF3, CHR 0xF4, CHR 0xF5, CHR 0xF6, CHR 0xF8,
      CHR 0xF9, CHR 0xFA, CHR 0xFB, CHR 0xFC, CHR 0xFD, CHR 0xFE]"

text \<open>
  The letters without a case partner in the range: feminine and masculine ordinal, micro
  sign, sharp s, y with diaeresis.
\<close>

definition other_letter_chars :: string where
  "other_letter_chars = [CHR 0xAA, CHR 0xBA, CHR 0xB5, CHR 0xDF, CHR 0xFF]"

text \<open>
  The numeric characters that are no decimal digits (superscripts two, three, one and the
  fractions): not matched by \<open>\d\<close>, but word characters for \<open>\w\<close> and \<open>\b\<close>.
\<close>

definition numeric_chars :: string where
  "numeric_chars = [CHR 0xB2, CHR 0xB3, CHR 0xB9, CHR 0xBC, CHR 0xBD, CHR 0xBE]"

text \<open>
  \<open>str.isspace\<close>, which \<open>strip\<close>, \<open>split\<close> and \<open>\s\<close> share: tab, LF, VT, FF, CR, the
  separators 0x1C..0x1F, space, NEL (0x85) and the no-break space (0xA0).
\<close>

definition space_chars :: string where
  "space_chars = [CHR 0x09, CHR 0x0A, CHR 0x0B, CHR 0x0C, CHR 0x0D,
                  CHR 0x1C, CHR 0x1D, CHR 0x1E, CHR 0x1F, CHR 0x20,
                  CHR 0x85, CHR 0xA0]"

text \<open>The bracket items \<open>A-Z\<close>, \<open>a-z\<close> and \<open>A-Za-z\<close> of a pattern.\<close>

definition ascii_upper :: "char \<Rightarrow> bool" where
  "ascii_upper c = (c \<in> set upper_chars)"

definition ascii_lower :: "char \<Rightarrow> bool" where
  "ascii_lower c = (c \<in> set lower_chars)"

definition ascii_letter :: "char \<Rightarrow> bool" where
  "ascii_letter c = (ascii_upper c \<or> ascii_lower c)"

text \<open>\<open>c.isupper()\<close> and \<open>c.isalpha()\<close> for one character.\<close>

definition is_upper :: "char \<Rightarrow> bool" where
  "is_upper c = (c \<in> set upper_chars \<or> c \<in> set latin_upper_chars)"

definition is_alpha :: "char \<Rightarrow> bool" where
  "is_alpha c =
     (c \<in> set upper_chars \<or> c \<in> set lower_chars \<or> c \<in> set latin_upper_chars
      \<or> c \<in> set latin_lower_chars \<or> c \<in> set other_letter_chars)"

text \<open>\<open>\d\<close>\<close>

definition is_digit :: "char \<Rightarrow> bool" where
  "is_digit c = (c \<in> set digit_chars)"

definition is_space :: "char \<Rightarrow> bool" where
  "is_space c = (c \<in> set space_chars)"

text \<open>
  \<open>c.lower()\<close>, and the other way round on the same pairs: \<open>upper_chr c\<close> is the character
  other than \<open>lower_chr c\<close> that has the lowercase form of \<open>c\<close>, if there is one.
\<close>

definition lower_chr :: "char \<Rightarrow> char" where
  "lower_chr c =
     (case map_of (zip (upper_chars @ latin_upper_chars) (lower_chars @ latin_lower_chars)) c of
        Some d \<Rightarrow> d
      | None \<Rightarrow> c)"

definition upper_chr :: "char \<Rightarrow> char" where
  "upper_chr c =
     (case map_of (zip (lower_chars @ latin_lower_chars) (upper_chars @ latin_upper_chars)) c of
        Some d \<Rightarrow> d
      | None \<Rightarrow> c)"

text \<open>\<open>s.lower()\<close>\<close>

definition lower :: "string \<Rightarrow> string" where
  "lower s = map lower_chr s"

text \<open>\<open>s.strip()\<close>\<close>

definition strip :: "string \<Rightarrow> string" where
  "strip s = rev (dropWhile is_space (rev (dropWhile is_space s)))"

text \<open>\<open>any(k in field for k in ks)\<close>\<close>

definition any_in :: "string list \<Rightarrow> string \<Rightarrow> bool" where
  "any_in ks field = list_ex (\<lambda>k. sublist k field) ks"

text \<open>The extracted data, a Python \<open>Dict[str, str]\<close>.\<close>

type_synonym field_map = "string \<rightharpoonup> string"

text \<open>\<open>s.replace(old, new)\<close>: every non-overlapping occurrence, scanning from the left.\<close>

function replace :: "string \<Rightarrow> string \<Rightarrow> string \<Rightarrow> string" where
  "replace old new s =
     (if old = [] then new @ concat (map (\<lambda>c. c # new) s)
      else if prefix old s then new @ replace old new (drop (length old) s)
      else case s of [] \<Rightarrow> [] | c # cs \<Rightarrow> c # replace old new cs)"
  by pat_completeness auto
termination
  by (relation "measure (\<lambda>(old, new, s). length s)") (auto simp: prefix_def)

text \<open>
  \<open>s.split(sep)\<close> for a one-character separator: empty pieces are kept, so the result is
  never empty (the first branch of the \<open>case\<close> is not reached).
\<close>

fun split_on :: "char \<Rightarrow> string \<Rightarrow> string list" where
  "split_on sep [] = [[]]"
| "split_on sep (c # cs) =
     (if c = sep then [] # split_on sep cs
      else (case split_on sep cs of [] \<Rightarrow> [[c]] | l # ls \<Rightarrow> (c # l) # ls))"

text \<open>\<open>s.split()\<close>: the maximal runs of non-whitespace characters.\<close>

fun words_from :: "string \<Rightarrow> string \<Rightarrow> string list" where
  "words_from cur [] = (if cur = [] then [] else [rev cur])"
| "words_from cur (c # cs) =
     (if is_space c then (if cur = [] then words_from [] cs else rev cur # words_from [] cs)
      else words_from (c # cur) cs)"

definition split_ws :: "string \<Rightarrow> string list" where
  "split_ws s = words_from [] s"

text \<open>\<open>sep.join(xs)\<close>\<close>

fun join :: "string \<Rightarrow> string list \<Rightarrow> string" where
  "join sep [] = []"
| "join sep [x] = x"
| "join sep (x # y # ys) = x @ sep @ join sep (y # ys)"

text \<open>\<open>s.isalpha()\<close>: false on the empty string.\<close>

definition isalpha :: "string \<Rightarrow> bool" where
  "isalpha s = (s \<noteq> [] \<and> list_all is_alpha s)"

text \<open>\<open>max(xs, key=key)\<close> on a non-empty list: the first element of greatest key.\<close>

definition max_by :: "('a \<Rightarrow> nat) \<Rightarrow> 'a list \<Rightarrow> 'a" where
  "max_by key xs = foldl (\<lambda>best x. if key best < key x then x else best) (hd xs) (tl xs)"

definition newline :: char where
  "newline = CHR 0x0A"

section \<open>Regular expressions\<close>

text \<open>
  The fragment of Python's \<open>re\<close> that the extractor's patterns are written in: a character
  class, the word boundary \<open>\b\<close>, concatenation, the greedy optional group and greedy
  bounded repetition of a character class. The matcher is the backtracking matcher of
  \<open>re\<close>: \<open>rmatch ic r text pos\<close> lists the lengths of all matches of \<open>r\<close> that start at
  \<open>pos\<close>, in the order in which backtracking finds them, so the head of the list is the
  match \<open>re\<close> reports. \<open>ic\<close> is the flag \<open>re.IGNORECASE\<close>.
\<close>

text \<open>\<open>\w\<close>: alphanumeric (\<open>str.isalnum\<close>) or the underscore.\<close>

definition is_word :: "char \<Rightarrow> bool" where
  "is_word c = (is_alpha c \<or> is_digit c \<or> c \<in> set numeric_chars \<or> c = CHR ''_'')"

datatype regex =
    Sym "char \<Rightarrow> bool"
  | WordB
  | Cat regex regex
  | Opt regex
  | Rep "char \<Rightarrow> bool" nat "nat option"

text \<open>
  A character against a class: under \<open>re.IGNORECASE\<close> it matches when a character of the
  class has the same lowercase form.
\<close>

definition in_class :: "bool \<Rightarrow> (char \<Rightarrow> bool) \<Rightarrow> char \<Rightarrow> bool" where
  "in_class ic P c = (P c \<or> (ic \<and> (P (lower_chr c) \<or> P (upper_chr c))))"

definition at_boundary :: "string \<Rightarrow> nat \<Rightarrow> bool" where
  "at_boundary text pos =
     ((0 < pos \<and> pos \<le> length text \<and> is_word (text ! (pos - 1)))
        \<noteq> (pos < length text \<and> is_word (text ! pos)))"

text \<open>The lengths a greedy repetition \<open>{m,n}\<close> tries when \<open>avail\<close> characters fit: longest first.\<close>

definition rep_lengths :: "nat \<Rightarrow> nat option \<Rightarrow> nat \<Rightarrow> nat list" where
  "rep_lengths m n avail =
     (let k = (case n of None \<Rightarrow> avail | Some n' \<Rightarrow> min n' avail)
      in if k < m then [] else rev [m..<Suc k])"

fun rmatch :: "bool \<Rightarrow> regex \<Rightarrow> string \<Rightarrow> nat \<Rightarrow> nat list" where
  "rmatch ic (Sym P) text pos =
     (if pos < length text \<and> in_class ic P (text ! pos) then [1] else [])"
| "rmatch ic WordB text pos = (if at_boundary text pos then [0] else [])"
| "rmatch ic (Cat r1 r2) text pos =
     concat (map (\<lambda>n1. map (\<lambda>n2. n1 + n2) (rmatch ic r2 text (pos + n1)))
                 (rmatch ic r1 text pos))"
| "rmatch ic (Opt r) text pos = rmatch ic r text pos @ [0]"
| "rmatch ic (Rep P m n) text pos =
     rep_lengths m n (length (takeWhile (in_class ic P) (drop pos text)))"

text \<open>
  \<open>re.findall(pattern, text, flags)\<close> for a pattern without groups: the matched substrings,
  scanning from the left. After an empty match the next match at the same position must
  be non-empty (\<open>must_advance\<close>).
\<close>

function findall_from :: "bool \<Rightarrow> regex \<Rightarrow> string \<Rightarrow> nat \<Rightarrow> bool \<Rightarrow> string list" where
  "findall_from ic r text pos must_advance =
     (if length text < pos then []
      else case filter (\<lambda>n. must_advance \<longrightarrow> 0 < n) (rmatch ic r text pos) of
             [] \<Rightarrow> findall_from ic r text (Suc pos) False
           | n # _ \<Rightarrow> take n (drop pos text) # findall_from ic r text (pos + n) (n = 0))"
  by pat_completeness auto
termination
  by (relation "measure (\<lambda>(ic, r, text, pos, must).
                  2 * (Suc (length text) - pos) + (if must then 0 else 1))")
     (auto split: if_splits dest!: filter_eq_ConsD)

definition findall :: "bool \<Rightarrow> regex \<Rightarrow> string \<Rightarrow> string list" where
  "findall ic r text = findall_from ic r text 0 False"

text \<open>\<open>re.search(pattern, text)\<close> used as a condition: is there a match at all.\<close>

definition re_search :: "regex \<Rightarrow> string \<Rightarrow> bool" where
  "re_search r text = (findall False r text \<noteq> [])"

text \<open>
  Pattern syntax: a sequence of items (the empty sequence matches the empty string), a
  literal character, a bracket of characters.
\<close>

fun seq :: "regex list \<Rightarrow> regex" where
  "seq [] = Rep (\<lambda>c. False) 0 None"
| "seq [r] = r"
| "seq (r # rs) = Cat r (seq rs)"

definition lit :: "char \<Rightarrow> regex" where
  "lit c = Sym (\<lambda>x. x = c)"

definition one_of :: "string \<Rightarrow> char \<Rightarrow> bool" where
  "one_of cs c = (c \<in> set cs)"

section \<open>Field Extractor (extractor.py)\<close>

text \<open>The six patterns of \<open>extract_structured_data\<close>.\<close>

text \<open>\<^verbatim>\<open>\b[A-Za-z0-9._%+-]+@[A-Za-z0-9.-]+\.[A-Z|a-z]{2,}\b\<close>\<close>

definition email_re :: regex where
  "email_re = seq [WordB,
     Rep (\<lambda>c. ascii_letter c \<or> is_digit c \<or> one_of ''._%+-'' c) 1 None,
     lit CHR ''@'',
     Rep (\<lambda>c. ascii_letter c \<or> is_digit c \<or> one_of ''.-'' c) 1 None,
     lit CHR ''.'',
     Rep (\<lambda>c. ascii_letter c \<or> c = CHR ''|'') 2 None,
     WordB]"

text \<open>\<^verbatim>\<open>\b(?:\+91[\s-]?)?[6-9]\d{9}\b\<close>\<close>

definition phone_re :: regex where
  "phone_re = seq [WordB,
     Opt (seq [lit CHR ''+'', lit CHR ''9'', lit CHR ''1'',
               Opt (Sym (\<lambda>c. is_space c \<or> c = CHR ''-''))]),
     Sym (one_of ''6789''),
     Rep is_digit 9 (Some 9),
     WordB]"

text \<open>\<^verbatim>\<open>\b\d{4}[\s-]?\d{4}[\s-]?\d{4}\b\<close>\<close>

definition aadhaar_re :: regex where
  "aadhaar_re = seq [WordB,
     Rep is_digit 4 (Some 4), Opt (Sym (\<lambda>c. is_space c \<or> c = CHR ''-'')),
     Rep is_digit 4 (Some 4), Opt (Sym (\<lambda>c. is_space c \<or> c = CHR ''-'')),
     Rep is_digit 4 (Some 4),
     WordB]"

text \<open>\<^verbatim>\<open>\b[A-Z]{5}\d{4}[A-Z]\b\<close>\<close>

definition pan_re :: regex where
  "pan_re = seq [WordB, Rep ascii_upper 5 (Some 5), Rep is_digit 4 (Some 4), Sym ascii_upper,
                 WordB]"

text \<open>\<^verbatim>\<open>\b\d{6}\b\<close>\<close>

definition pincode_re :: regex where
  "pincode_re = seq [WordB, Rep is_digit 6 (Some 6), WordB]"

text \<open>\<^verbatim>\<open>\b\d{1,2}[/-]\d{1,2}[/-]\d{2,4}\b\<close>\<close>

definition date_re :: regex where
  "date_re = seq [WordB,
     Rep is_digit 1 (Some 2), Sym (one_of ''/-''),
     Rep is_digit 1 (Some 2), Sym (one_of ''/-''),
     Rep is_digit 2 (Some 4),
     WordB]"

text \<open>The dictionary \<open>patterns\<close>, in insertion order (the order the loop visits it).\<close>

definition patterns :: "(string \<times> regex) list" where
  "patterns = [(''email'', email_re), (''phone'', phone_re), (''aadhaar'', aadhaar_re),
               (''pan'', pan_re), (''pincode'', pincode_re), (''date'', date_re)]"

text \<open>
  The loop \<open>for key, pattern in patterns.items()\<close>: \<open>self.data[key] = matches[0].strip()\<close>
  when \<open>re.findall\<close> found something.
\<close>

fun regex_loop :: "(string \<times> regex) list \<Rightarrow> string \<Rightarrow> field_map \<Rightarrow> field_map" where
  "regex_loop [] text data = data"
| "regex_loop ((key, pattern) # ps) text data =
     (case findall True pattern text of
        [] \<Rightarrow> regex_loop ps text data
      | m # _ \<Rightarrow> regex_loop ps text (data(key \<mapsto> strip m)))"

text \<open>
  The question-answering collaborator: \<open>self.qa_pipeline\<close> after \<open>_init_bert\<close> is \<open>None\<close>
  when the model could not be loaded; a call either raises or returns a score and an
  answer. The score, a float in the source, is a real number here, and the pipeline is
  the same at both fallbacks.
\<close>

datatype qa_outcome = QA_raises | QA_result real string

type_synonym qa_pipeline = "string \<Rightarrow> string \<Rightarrow> qa_outcome"

text \<open>
  The shared shape of both fallbacks: \<open>if self.qa_pipeline and len(self.text) > 50\<close>,
  ask over \<open>self.text[:2000]\<close>, accept above the threshold, swallow any exception.
\<close>

definition ask_bert :: "qa_pipeline option \<Rightarrow> string \<Rightarrow> real \<Rightarrow> string \<Rightarrow> string option" where
  "ask_bert qa question threshold text =
     (case qa of
        None \<Rightarrow> None
      | Some pipeline \<Rightarrow>
          if 50 < length text then
            (case pipeline question (take 2000 text) of
               QA_raises \<Rightarrow> None
             | QA_result score answer \<Rightarrow> if threshold < score then Some (strip answer) else None)
          else None)"

definition skip_words :: "string list" where
  "skip_words =
     [''government'', ''india'', ''aadhaar'', ''unique'', ''authority'',
      ''male'', ''female'', ''dob'', ''birth'', ''year'', ''card'', ''number'',
      ''address'', ''pin'', ''code'', ''state'', ''district'', ''post'',
      ''income'', ''tax'', ''department'', ''permanent'', ''account'',
      ''republic'', ''signature'', ''photo'', ''date'', ''issue'', ''issued'',
      ''enrollment'', ''help'', ''resident'', ''identity'', ''www'', ''uidai'']"

text \<open>\<open>len(x.replace(' ', ''))\<close>, the key of both \<open>max\<close> calls and of both length tests.\<close>

definition name_len :: "string \<Rightarrow> nat" where
  "name_len x = length (replace '' '' [] x)"

text \<open>\<^verbatim>\<open>\d{2,}\<close> and \<^verbatim>\<open>[^A-Za-z\s\.]\<close>\<close>

definition digit_run_re :: regex where
  "digit_run_re = Rep is_digit 2 None"

definition special_re :: regex where
  "special_re = Sym (\<lambda>c. \<not> (ascii_letter c \<or> is_space c \<or> c = CHR ''.''))"

text \<open>
  The body of the loop over the lines in \<open>extract_name_improved\<close>, for one stripped line:
  does the line reach \<open>potential_names.append(line)\<close>.
\<close>

definition name_candidate :: "string \<Rightarrow> bool" where
  "name_candidate line =
     (if length line < 3 \<or> 100 < length line then False
      else if any_in skip_words (lower line) then False
      else if re_search digit_run_re line then False
      else if re_search special_re line then False
      else (let words = split_ws line in
            2 \<le> length words \<and> length words \<le> 4
            \<and> list_all (\<lambda>w. isalpha (replace ''.'' [] w)) words
            \<and> is_upper (hd (hd words))
            \<and> 4 \<le> name_len line))"

definition potential_names :: "string \<Rightarrow> string list" where
  "potential_names text = filter name_candidate (map strip (split_on newline text))"

text \<open>Strategy 1 of \<open>extract_name_improved\<close>: \<open>None\<close> when control reaches Strategy 2.\<close>

definition name_strategy1 :: "string \<Rightarrow> string option" where
  "name_strategy1 text =
     (let names = potential_names text in
      if names \<noteq> [] then
        (let best_name = max_by name_len names in
         if name_len best_name < 6 then
           (let better_names = filter (\<lambda>n. 6 \<le> name_len n) names in
            if better_names \<noteq> [] then Some (max_by name_len better_names)
            else Some best_name)
         else Some best_name)
      else None)"

definition extract_name_improved :: "qa_pipeline option \<Rightarrow> string \<Rightarrow> string option" where
  "extract_name_improved qa text =
     (case name_strategy1 text of
        Some name \<Rightarrow> Some name
      | None \<Rightarrow> ask_bert qa ''What is the person's full name?'' 0.3 text)"

text \<open>
  The loop of \<open>extract_address\<close> over \<open>enumerate(lines)\<close>; the argument is the list of the
  lines from the current one on, so the lines \<open>i+1 .. min(i+4, len(lines)) - 1\<close> are the
  first three of the tail.
\<close>

fun address_scan :: "string list \<Rightarrow> string option" where
  "address_scan [] = None"
| "address_scan (l # ls) =
     (let line = strip l in
      if any_in [''s/o'', ''c/o'', ''d/o'', ''w/o'', ''street'', ''road'', ''village''] (lower line)
      then (let address_parts = line # filter (\<lambda>next_line. next_line \<noteq> [] \<and> 3 < length next_line)
                                              (map strip (take 3 ls));
                address = join '' '' address_parts
            in if 20 < length address then Some (take 200 address) else address_scan ls)
      else address_scan ls)"

definition extract_address :: "qa_pipeline option \<Rightarrow> string \<Rightarrow> string option" where
  "extract_address qa text =
     (case address_scan (split_on newline text) of
        Some address \<Rightarrow> Some address
      | None \<Rightarrow> ask_bert qa ''What is the complete address?'' 0.2 text)"

text \<open>\<open>if name: self.data['name'] = name\<close>: bound when neither \<open>None\<close> nor empty.\<close>

definition set_if_truthy :: "string \<Rightarrow> string option \<Rightarrow> field_map \<Rightarrow> field_map" where
  "set_if_truthy key v data =
     (case v of None \<Rightarrow> data | Some s \<Rightarrow> if s = [] then data else data(key \<mapsto> s))"

text \<open>
  \<open>extract_structured_data\<close>, with \<open>self.text\<close> and \<open>self.data\<close> as arguments and the
  updated \<open>self.data\<close> as result.
\<close>

definition extract_structured_data :: "qa_pipeline option \<Rightarrow> string \<Rightarrow> field_map \<Rightarrow> field_map" where
  "extract_structured_data qa text data =
     (let data1 = regex_loop patterns text data;
          data2 = set_if_truthy ''name'' (extract_name_improved qa text) data1;
          data3 = set_if_truthy ''address'' (extract_address qa text) data2
      in data3)"

section \<open>Text Acquisition (extractor.py)\<close>

text \<open>A call of a collaborator either raises an exception or returns a value.\<close>

datatype 'a outcome = Raises | Returns 'a

text \<open>
  What a library makes of the document: opening and parsing it raises, or gives the pages,
  and \<open>extract_text()\<close> on a page (\<open>image_to_string\<close> on a page image) raises or returns a
  text, which may be \<open>None\<close>.
\<close>

type_synonym page_source = "string option outcome list outcome"

record document =
  pypdf2_pages :: page_source
  pdfplumber_pages :: page_source
  ocr_pages :: page_source

datatype source = PyPDF2 | PDFPlumber | OCR

text \<open>
  The state of \<open>extract_text\<close>: the local list \<open>texts\<close>, and the strategies entered so
  far (each \<open>try\<close> block announces itself first: "Trying ... extraction...").
\<close>

record acquisition =
  texts :: "string list"
  tried :: "source list"

text \<open>
  A block of statements runs on the state and ends normally or by an exception; what it
  did to the state before the exception stays done.
\<close>

type_synonym 's block = "'s \<Rightarrow> 's \<times> unit outcome"

text \<open>Sequencing: an exception in the first block skips the second.\<close>

definition and_then :: "'s block \<Rightarrow> 's block \<Rightarrow> 's block" where
  "and_then b1 b2 s = (case b1 s of (s', Raises) \<Rightarrow> (s', Raises) | (s', Returns _) \<Rightarrow> b2 s')"

text \<open>\<open>try: body except Exception as e: print(...)\<close>\<close>

definition try_except :: "'s block \<Rightarrow> 's block" where
  "try_except body s = (case body s of (s', Raises) \<Rightarrow> (s', Returns ()) | (s', Returns _) \<Rightarrow> (s', Returns ()))"

text \<open>\<open>if text and len(text.strip()) > 50\<close>\<close>

definition long_enough :: "string option \<Rightarrow> bool" where
  "long_enough t = (case t of None \<Rightarrow> False | Some s \<Rightarrow> s \<noteq> [] \<and> 50 < length (strip s))"

text \<open>The loop over the pages inside a \<open>try\<close> block.\<close>

fun read_pages :: "string option outcome list \<Rightarrow> acquisition block" where
  "read_pages [] s = (s, Returns ())"
| "read_pages (Raises # ps) s = (s, Raises)"
| "read_pages (Returns t # ps) s =
     read_pages ps (if long_enough t then s\<lparr>texts := texts s @ [the t]\<rparr> else s)"

text \<open>The body of one \<open>try\<close> block: announce the strategy, open the document, read the pages.\<close>

definition read_source :: "source \<Rightarrow> page_source \<Rightarrow> acquisition block" where
  "read_source src pages s =
     (let s' = s\<lparr>tried := tried s @ [src]\<rparr> in
      case pages of Raises \<Rightarrow> (s', Raises) | Returns ps \<Rightarrow> read_pages ps s')"

text \<open>\<open>if not texts or sum(len(t) for t in texts) < 200\<close>\<close>

definition needs_ocr :: "string list \<Rightarrow> bool" where
  "needs_ocr ts = (ts = [] \<or> sum_list (map length ts) < 200)"

definition ocr_if_needed :: "document \<Rightarrow> acquisition block" where
  "ocr_if_needed doc s =
     (if needs_ocr (texts s) then try_except (read_source OCR (ocr_pages doc)) s
      else (s, Returns ()))"

definition extract_text_run :: "document \<Rightarrow> acquisition \<times> unit outcome" where
  "extract_text_run doc =
     and_then (try_except (read_source PyPDF2 (pypdf2_pages doc)))
    (and_then (try_except (read_source PDFPlumber (pdfplumber_pages doc)))
              (ocr_if_needed doc))
       \<lparr>texts = [], tried = []\<rparr>"

text \<open>What the caller of \<open>extract_text\<close> gets: \<open>"\n\n".join(texts)\<close>, or an exception.\<close>

definition extract_text :: "document \<Rightarrow> string outcome" where
  "extract_text doc =
     (case extract_text_run doc of
        (s, Raises) \<Rightarrow> Raises
      | (s, Returns _) \<Rightarrow> Returns (join [newline, newline] (texts s)))"

text \<open>\<open>process\<close>: \<open>extract_text\<close>, then \<open>extract_structured_data\<close> on the fresh \<open>self.data\<close>.\<close>

definition process :: "qa_pipeline option \<Rightarrow> document \<Rightarrow> (string \<times> field_map) outcome" where
  "process qa doc =
     (case extract_text doc of
        Raises \<Rightarrow> Raises
      | Returns text \<Rightarrow> Returns (text, extract_structured_data qa text Map.empty))"

section \<open>Field Matcher\<close>

text \<open>\<open>data.get(key, '')\<close>\<close>

definition dict_get :: "field_map \<Rightarrow> string \<Rightarrow> string" where
  "dict_get data key = (case data key of None \<Rightarrow> [] | Some v \<Rightarrow> v)"

text \<open>
  \<open>GoogleFormFiller.get_value_for_field\<close> of \<open>form_filler.py\<close>: one \<open>if/elif\<close> chain,
  each branch returning \<open>data.get(key, '')\<close>.
\<close>

definition get_value_for_field :: "string \<Rightarrow> field_map \<Rightarrow> string" where
  "get_value_for_field field_name data =
     (let field = lower field_name in
      if any_in [''name'', ''naam'', ''full name'', ''your name'', ''applicant name''] field
        then dict_get data ''name''
      else if any_in [''email'', ''e-mail'', ''mail'', ''electronic''] field
        then dict_get data ''email''
      else if any_in [''phone'', ''mobile'', ''contact'', ''telephone'', ''cell''] field
        then dict_get data ''phone''
      else if any_in [''aadhaar'', ''aadhar'', ''uid'', ''unique id''] field
        then dict_get data ''aadhaar''
      else if any_in [''pan'', ''permanent account''] field
        then dict_get data ''pan''
      else if any_in [''address'', ''location'', ''residence'', ''residential''] field
        then dict_get data ''address''
      else if any_in [''pin'', ''postal'', ''zip'', ''pincode''] field
        then dict_get data ''pincode''
      else if any_in [''dob'', ''birth'', ''date of birth''] field
        then dict_get data ''date''
      else [])"

text \<open>
  \<open>GoogleFormFiller.get_value_for_field\<close> of \<open>form_filler_sync.py\<close>: a sequence of
  independent \<open>if\<close> statements, each returning \<open>data[key]\<close> only under the inner guard
  \<open>if key in data\<close>; otherwise control goes on to the next \<open>if\<close>. The statements are
  threaded through \<open>sync_case\<close>, whose last argument is the rest of the function body.
\<close>

definition sync_case :: "string list \<Rightarrow> string \<Rightarrow> string \<Rightarrow> field_map \<Rightarrow> string \<Rightarrow> string" where
  "sync_case ks key field data rest =
     (if any_in ks field
      then (case data key of Some v \<Rightarrow> v | None \<Rightarrow> rest)
      else rest)"

definition get_value_for_field_sync :: "string \<Rightarrow> field_map \<Rightarrow> string" where
  "get_value_for_field_sync field_name data =
     (let field = lower field_name in
      sync_case [''name'', ''naam'', ''full name'', ''your name'', ''applicant''] ''name'' field data
     (sync_case [''email'', ''e-mail'', ''mail'', ''electronic''] ''email'' field data
     (sync_case [''phone'', ''mobile'', ''contact'', ''telephone'', ''cell''] ''phone'' field data
     (sync_case [''aadhaar'', ''aadhar'', ''uid'', ''unique'', ''adhaar'', ''Aadhar number'', ''Aadhar'']
                ''aadhaar'' field data
     (sync_case [''pan'', ''permanent account''] ''pan'' field data
     (sync_case [''address'', ''location'', ''residence'', ''street''] ''address'' field data
     (sync_case [''pin'', ''postal'', ''zip'', ''pincode''] ''pincode'' field data
     (sync_case [''dob'', ''birth'', ''date''] ''date'' field data
      []))))))))"

text \<open>
  The matcher as the specification words it: a table of categories in priority order, each
  a keyword set with the key of its field, and the first category with a substring hit.
\<close>

type_synonym category = "string list \<times> string"

definition categories :: "category list" where
  "categories =
     [([''name'', ''naam'', ''full name'', ''your name'', ''applicant name''], ''name''),
      ([''email'', ''e-mail'', ''mail'', ''electronic''], ''email''),
      ([''phone'', ''mobile'', ''contact'', ''telephone'', ''cell''], ''phone''),
      ([''aadhaar'', ''aadhar'', ''uid'', ''unique id''], ''aadhaar''),
      ([''pan'', ''permanent account''], ''pan''),
      ([''address'', ''location'', ''residence'', ''residential''], ''address''),
      ([''pin'', ''postal'', ''zip'', ''pincode''], ''pincode''),
      ([''dob'', ''birth'', ''date of birth''], ''date'')]"

definition categories_sync :: "category list" where
  "categories_sync =
     [([''name'', ''naam'', ''full name'', ''your name'', ''applicant''], ''name''),
      ([''email'', ''e-mail'', ''mail'', ''electronic''], ''email''),
      ([''phone'', ''mobile'', ''contact'', ''telephone'', ''cell''], ''phone''),
      ([''aadhaar'', ''aadhar'', ''uid'', ''unique'', ''adhaar'', ''Aadhar number'', ''Aadhar''],
       ''aadhaar''),
      ([''pan'', ''permanent account''], ''pan''),
      ([''address'', ''location'', ''residence'', ''street''], ''address''),
      ([''pin'', ''postal'', ''zip'', ''pincode''], ''pincode''),
      ([''dob'', ''birth'', ''date''], ''date'')]"

definition hit :: "string \<Rightarrow> category \<Rightarrow> bool" where
  "hit field cat = any_in (fst cat) field"

text \<open>The first category, in table order, one of whose keywords occurs in the label.\<close>

definition first_hit :: "category list \<Rightarrow> string \<Rightarrow> category option" where
  "first_hit cats field = find (hit field) cats"

text \<open>The claimed result: the value of the first hit, empty when its key is not bound.\<close>

definition first_hit_value :: "category list \<Rightarrow> string \<Rightarrow> field_map \<Rightarrow> string" where
  "first_hit_value cats field data =
     (case first_hit cats field of None \<Rightarrow> [] | Some cat \<Rightarrow> dict_get data (snd cat))"

text \<open>The first category with a hit whose key is bound in the field map.\<close>

definition first_bound_hit :: "category list \<Rightarrow> string \<Rightarrow> field_map \<Rightarrow> category option" where
  "first_bound_hit cats field data = find (\<lambda>cat. hit field cat \<and> data (snd cat) \<noteq> None) cats"

definition first_bound_hit_value :: "category list \<Rightarrow> string \<Rightarrow> field_map \<Rightarrow> string" where
  "first_bound_hit_value cats field data =
     (case first_bound_hit cats field data of None \<Rightarrow> [] | Some cat \<Rightarrow> dict_get data (snd cat))"

section \<open>The rendered page\<close>

text \<open>
  The page driver is a collaborator: the model records, for every control of the page, how
  each call on it ends. A call that returns nothing is a flag, true when it completes
  without an exception. How a call ends is taken to depend on the control and on the value
  passed, not on the moment of the call.
\<close>

record control =
  is_visible :: "bool outcome"
  inner_text :: "string outcome"
  scroll_into_view :: bool
  click :: bool
  focus :: bool
  clear :: bool
  type_value :: "string \<Rightarrow> bool"
  input_value :: "string \<Rightarrow> string outcome"
  select_option :: "string \<Rightarrow> bool"
  script_write :: "string \<Rightarrow> bool"

text \<open>
  \<open>clear\<close> is \<open>fill('')\<close>; \<open>input_value v\<close> is what \<open>input_value()\<close> gives after \<open>v\<close> was
  typed; \<open>select_option v\<close> is \<open>select_option(label=v)\<close>; \<open>script_write v\<close> is
  \<open>page.evaluate\<close> of the script that sets the element's value to \<open>v\<close>.
\<close>

text \<open>The selectors the two fillers query a question element with.\<close>

datatype selector =
    Sel_heading            \<comment> \<open>\<^verbatim>\<open>[role="heading"]\<close>\<close>
  | Sel_question_title     \<comment> \<open>\<^verbatim>\<open>.freebirdFormviewerComponentsQuestionBaseTitle\<close>\<close>
  | Sel_item_title         \<comment> \<open>\<^verbatim>\<open>.freebirdFormviewerViewItemsItemItemTitle\<close>\<close>
  | Sel_data_item          \<comment> \<open>\<^verbatim>\<open>[data-item-id] > div > div > div\<close>\<close>
  | Sel_div_auto           \<comment> \<open>\<^verbatim>\<open>div[dir="auto"]\<close>\<close>
  | Sel_input_text         \<comment> \<open>\<^verbatim>\<open>input[type="text"]\<close>\<close>
  | Sel_input_email        \<comment> \<open>\<^verbatim>\<open>input[type="email"]\<close>\<close>
  | Sel_input_tel          \<comment> \<open>\<^verbatim>\<open>input[type="tel"]\<close>\<close>
  | Sel_input_number       \<comment> \<open>\<^verbatim>\<open>input[type="number"]\<close>\<close>
  | Sel_input_aria_label   \<comment> \<open>\<^verbatim>\<open>input[aria-label]\<close>\<close>
  | Sel_textarea           \<comment> \<open>\<^verbatim>\<open>textarea\<close>\<close>
  | Sel_text_inputs        \<comment> \<open>\<^verbatim>\<open>input[type="text"], input[type="email"], input[type="tel"], textarea\<close>\<close>
  | Sel_label              \<comment> \<open>\<^verbatim>\<open>label\<close>\<close>
  | Sel_select             \<comment> \<open>\<^verbatim>\<open>select\<close>\<close>
  | Sel_contenteditable    \<comment> \<open>\<^verbatim>\<open>[contenteditable="true"]\<close>\<close>
  | Sel_input_or_textarea  \<comment> \<open>\<^verbatim>\<open>input, textarea\<close>\<close>

text \<open>A question element (a list item of the form).\<close>

record question =
  query_selector :: "selector \<Rightarrow> control option outcome"
  query_selector_all :: "selector \<Rightarrow> control list outcome"

text \<open>
  The browser session: whether launching the browser and opening a page succeeds, whether
  \<open>page.goto\<close> of a URL does, whether the pauses (\<open>wait_for_timeout\<close>) and the wait for the
  first list item do, the list items, whether the screenshot can be taken, and whether the
  \<open>k\<close>-th poll \<open>page.title()\<close> of the hold-open loop still succeeds.
\<close>

record page =
  launch :: bool
  goto :: "string \<Rightarrow> bool"
  wait_for_timeout :: bool
  wait_for_selector :: bool
  listitems :: "question list outcome"
  screenshot :: bool
  title :: "nat \<Rightarrow> bool"

text \<open>The five ways of filling a control that the specification numbers 1 to 5.\<close>

datatype strategy = DirectInput | ChoiceControl | Dropdown | Editable | ScriptWrite

section \<open>Field Filler of form\_filler.py\<close>

text \<open>The body of the \<open>try\<close> block of Method 1 for one input: true at \<open>return True\<close>.\<close>

definition fill_text_input :: "page \<Rightarrow> string \<Rightarrow> control \<Rightarrow> bool" where
  "fill_text_input pg v inp =
     (case is_visible inp of
        Raises \<Rightarrow> False
      | Returns False \<Rightarrow> False
      | Returns True \<Rightarrow>
          scroll_into_view inp \<and> wait_for_timeout pg \<and> focus inp \<and> wait_for_timeout pg
          \<and> clear inp \<and> wait_for_timeout pg \<and> type_value inp v \<and> wait_for_timeout pg)"

text \<open>
  The loop of Method 2 over the labels, inside one \<open>try\<close> block: an exception on any label
  ends the whole method.
\<close>

fun click_matching_label :: "page \<Rightarrow> string \<Rightarrow> control list \<Rightarrow> bool" where
  "click_matching_label pg v [] = False"
| "click_matching_label pg v (label # labels) =
     (case inner_text label of
        Raises \<Rightarrow> False
      | Returns t \<Rightarrow>
          if sublist (lower v) (lower (strip t))
          then click label \<and> wait_for_timeout pg
          else click_matching_label pg v labels)"

definition choice_controls :: "page \<Rightarrow> question \<Rightarrow> string \<Rightarrow> bool" where
  "choice_controls pg q v =
     (case query_selector_all q Sel_label of
        Raises \<Rightarrow> False
      | Returns labels \<Rightarrow> click_matching_label pg v labels)"

text \<open>
  Method 3: the loop returns or raises at the first dropdown, so only the first one counts.
\<close>

definition dropdowns :: "page \<Rightarrow> question \<Rightarrow> string \<Rightarrow> bool" where
  "dropdowns pg q v =
     (case query_selector_all q Sel_select of
        Raises \<Rightarrow> False
      | Returns [] \<Rightarrow> False
      | Returns (dropdown # _) \<Rightarrow> select_option dropdown v \<and> wait_for_timeout pg)"

text \<open>
  \<open>fill_field\<close>: the result (an exception when the query of Method 1, which stands outside
  any \<open>try\<close>, raises) and the methods entered, in order.
\<close>

definition fill_field :: "page \<Rightarrow> question \<Rightarrow> string \<Rightarrow> bool outcome \<times> strategy list" where
  "fill_field pg q v =
     (case query_selector_all q Sel_text_inputs of
        Raises \<Rightarrow> (Raises, [DirectInput])
      | Returns text_inputs \<Rightarrow>
          if list_ex (fill_text_input pg v) text_inputs then (Returns True, [DirectInput])
          else if choice_controls pg q v then (Returns True, [DirectInput, ChoiceControl])
          else if dropdowns pg q v then (Returns True, [DirectInput, ChoiceControl, Dropdown])
          else (Returns False, [DirectInput, ChoiceControl, Dropdown]))"

section \<open>Field Filler of form\_filler\_sync.py\<close>

definition input_selectors :: "selector list" where
  "input_selectors = [Sel_input_text, Sel_input_email, Sel_input_tel, Sel_input_number,
                      Sel_input_aria_label, Sel_textarea]"

text \<open>
  The calls of Strategy 1 on one input from \<open>scroll_into_view_if_needed\<close> to the pause
  after \<open>type\<close>: true when none of them raises.
\<close>

definition typed_without_exception :: "page \<Rightarrow> string \<Rightarrow> control \<Rightarrow> bool" where
  "typed_without_exception pg v inp =
     (scroll_into_view inp \<and> wait_for_timeout pg \<and> click inp \<and> wait_for_timeout pg
      \<and> clear inp \<and> wait_for_timeout pg \<and> type_value inp v \<and> wait_for_timeout pg)"

text \<open>
  The body of the \<open>try\<close> block of Strategy 1 for one input: true at a \<open>return True\<close>, false
  at \<open>continue\<close>. The verification has its own \<open>try\<close>; both its branches and its handler
  lead to \<open>return True\<close>.
\<close>

definition attempt_input :: "page \<Rightarrow> string \<Rightarrow> control \<Rightarrow> bool" where
  "attempt_input pg v inp =
     (case is_visible inp of
        Raises \<Rightarrow> False
      | Returns False \<Rightarrow> False
      | Returns True \<Rightarrow>
          if typed_without_exception pg v inp then
            (case input_value inp v of
               Raises \<Rightarrow> True
             | Returns filled_value \<Rightarrow> if filled_value = v then True else True)
          else False)"

text \<open>The loop over the selectors; \<open>query_selector_all\<close> stands outside the \<open>try\<close>.\<close>

fun direct_inputs :: "page \<Rightarrow> question \<Rightarrow> string \<Rightarrow> selector list \<Rightarrow> bool outcome" where
  "direct_inputs pg q v [] = Returns False"
| "direct_inputs pg q v (sel # sels) =
     (case query_selector_all q sel of
        Raises \<Rightarrow> Raises
      | Returns inputs \<Rightarrow>
          if list_ex (attempt_input pg v) inputs then Returns True
          else direct_inputs pg q v sels)"

definition attempt_editable :: "page \<Rightarrow> string \<Rightarrow> control \<Rightarrow> bool" where
  "attempt_editable pg v region =
     (case is_visible region of
        Raises \<Rightarrow> False
      | Returns False \<Rightarrow> False
      | Returns True \<Rightarrow>
          click region \<and> wait_for_timeout pg \<and> clear region \<and> wait_for_timeout pg
          \<and> type_value region v \<and> wait_for_timeout pg)"

definition editable_regions :: "page \<Rightarrow> question \<Rightarrow> string \<Rightarrow> bool" where
  "editable_regions pg q v =
     (case query_selector_all q Sel_contenteditable of
        Raises \<Rightarrow> False
      | Returns regions \<Rightarrow> list_ex (attempt_editable pg v) regions)"

definition attempt_script :: "page \<Rightarrow> string \<Rightarrow> control \<Rightarrow> bool" where
  "attempt_script pg v inp =
     (case is_visible inp of
        Raises \<Rightarrow> False
      | Returns False \<Rightarrow> False
      | Returns True \<Rightarrow> script_write inp v \<and> wait_for_timeout pg)"

definition javascript_injection :: "page \<Rightarrow> question \<Rightarrow> string \<Rightarrow> bool" where
  "javascript_injection pg q v =
     (case query_selector_all q Sel_input_or_textarea of
        Raises \<Rightarrow> False
      | Returns inputs \<Rightarrow> list_ex (attempt_script pg v) inputs)"

text \<open>
  \<open>_fill_field_advanced\<close>: the result and the strategies entered, in order (the function
  announces each one: "Strategy 1: Looking for input fields..." and so on).
\<close>

definition fill_field_advanced :: "page \<Rightarrow> question \<Rightarrow> string \<Rightarrow> bool outcome \<times> strategy list" where
  "fill_field_advanced pg q v =
     (case direct_inputs pg q v input_selectors of
        Raises \<Rightarrow> (Raises, [DirectInput])
      | Returns True \<Rightarrow> (Returns True, [DirectInput])
      | Returns False \<Rightarrow>
          if editable_regions pg q v then (Returns True, [DirectInput, Editable])
          else if javascript_injection pg q v
            then (Returns True, [DirectInput, Editable, ScriptWrite])
          else (Returns False, [DirectInput, Editable, ScriptWrite]))"

text \<open>
  Trying strategies in a strict order: the strategies are entered one after the other,
  the first that succeeds ends the attempt with true, and the result is false only when
  the list is exhausted. The result comes with the strategies entered.
\<close>

fun try_in_order :: "(strategy \<Rightarrow> bool) \<Rightarrow> strategy list \<Rightarrow> bool \<times> strategy list" where
  "try_in_order succeeds [] = (False, [])"
| "try_in_order succeeds (s # ss) =
     (if succeeds s then (True, [s])
      else (case try_in_order succeeds ss of (r, entered) \<Rightarrow> (r, s # entered)))"

text \<open>What each strategy is in \<open>form_filler_sync.py\<close> and in \<open>form_filler.py\<close>.\<close>

definition sync_strategy :: "page \<Rightarrow> question \<Rightarrow> string \<Rightarrow> strategy \<Rightarrow> bool" where
  "sync_strategy pg q v s =
     (case s of
        DirectInput \<Rightarrow> direct_inputs pg q v input_selectors = Returns True
      | Editable \<Rightarrow> editable_regions pg q v
      | ScriptWrite \<Rightarrow> javascript_injection pg q v
      | _ \<Rightarrow> False)"

definition text_inputs :: "page \<Rightarrow> question \<Rightarrow> string \<Rightarrow> bool" where
  "text_inputs pg q v =
     (case query_selector_all q Sel_text_inputs of
        Raises \<Rightarrow> False
      | Returns inputs \<Rightarrow> list_ex (fill_text_input pg v) inputs)"

definition async_strategy :: "page \<Rightarrow> question \<Rightarrow> string \<Rightarrow> strategy \<Rightarrow> bool" where
  "async_strategy pg q v s =
     (case s of
        DirectInput \<Rightarrow> text_inputs pg q v
      | ChoiceControl \<Rightarrow> choice_controls pg q v
      | Dropdown \<Rightarrow> dropdowns pg q v
      | _ \<Rightarrow> False)"

text \<open>
  The Field Filler as the specification words it: the five strategies in the order direct
  input, choice control, dropdown, editable region, script write. Each strategy is the one
  of the source file that has it (the direct inputs with their verification are those of
  \<open>form_filler_sync.py\<close>).
\<close>

definition spec_strategy :: "page \<Rightarrow> question \<Rightarrow> string \<Rightarrow> strategy \<Rightarrow> bool" where
  "spec_strategy pg q v s =
     (case s of
        DirectInput \<Rightarrow> direct_inputs pg q v input_selectors = Returns True
      | ChoiceControl \<Rightarrow> choice_controls pg q v
      | Dropdown \<Rightarrow> dropdowns pg q v
      | Editable \<Rightarrow> editable_regions pg q v
      | ScriptWrite \<Rightarrow> javascript_injection pg q v)"

definition spec_order :: "strategy list" where
  "spec_order = [DirectInput, ChoiceControl, Dropdown, Editable, ScriptWrite]"

definition spec_fill :: "page \<Rightarrow> question \<Rightarrow> string \<Rightarrow> bool \<times> strategy list" where
  "spec_fill pg q v = try_in_order (spec_strategy pg q v) spec_order"

section \<open>Form Inspector and fill session\<close>

text \<open>
  One attempt of \<open>_get_question_text\<close> to read a title through a selector, inside its
  \<open>try\<close>: the stripped text when the element exists and the text is accepted.
\<close>

definition title_text :: "question \<Rightarrow> selector \<Rightarrow> (string \<Rightarrow> bool) \<Rightarrow> string option" where
  "title_text q sel accept =
     (case query_selector q sel of
        Raises \<Rightarrow> None
      | Returns None \<Rightarrow> None
      | Returns (Some elem) \<Rightarrow>
          (case inner_text elem of
             Raises \<Rightarrow> None
           | Returns t \<Rightarrow> if accept (strip t) then Some (strip t) else None))"

fun fallback_title :: "question \<Rightarrow> selector list \<Rightarrow> string" where
  "fallback_title q [] = []"
| "fallback_title q (sel # sels) =
     (case title_text q sel (\<lambda>t. t \<noteq> [] \<and> 1 < length t) of
        Some t \<Rightarrow> strip (replace ''*'' [] t)
      | None \<Rightarrow> fallback_title q sels)"

definition get_question_text :: "question \<Rightarrow> string" where
  "get_question_text q =
     (case title_text q Sel_heading (\<lambda>t. t \<noteq> []) of
        Some t \<Rightarrow> strip (replace ''*'' [] t)
      | None \<Rightarrow> fallback_title q [Sel_question_title, Sel_item_title, Sel_data_item, Sel_div_auto])"

text \<open>
  The body of the loop over the questions in \<open>fill_form\<close> of \<open>form_filler_sync.py\<close>, on the
  counters \<open>fields_filled\<close> and \<open>total_fields\<close>; an exception anywhere in it is caught and the loop goes on.
\<close>

definition question_step_sync :: "page \<Rightarrow> field_map \<Rightarrow> question \<Rightarrow> nat \<times> nat \<Rightarrow> nat \<times> nat" where
  "question_step_sync pg data q counts =
     (case counts of (fields_filled, total_fields) \<Rightarrow>
        (let q_text = get_question_text q in
         if q_text = [] then (fields_filled, total_fields)
         else (let q_text_lower = lower q_text;
                   total_fields = total_fields + 1;
                   v = get_value_for_field_sync q_text_lower data
               in if v = [] then (fields_filled, total_fields)
                  else (case fst (fill_field_advanced pg q v) of
                          Raises \<Rightarrow> (fields_filled, total_fields)
                        | Returns success \<Rightarrow>
                            if success then (fields_filled + 1, total_fields) else (fields_filled, total_fields)))))"

fun question_loop_sync :: "page \<Rightarrow> field_map \<Rightarrow> question list \<Rightarrow> nat \<times> nat \<Rightarrow> nat \<times> nat" where
  "question_loop_sync pg data [] counts = counts"
| "question_loop_sync pg data (q # qs) counts =
     question_loop_sync pg data qs (question_step_sync pg data q counts)"

text \<open>The same loop in \<open>fill_form\<close> of \<open>form_filler.py\<close>.\<close>

definition question_step :: "page \<Rightarrow> field_map \<Rightarrow> question \<Rightarrow> nat \<times> nat \<Rightarrow> nat \<times> nat" where
  "question_step pg data q counts =
     (case counts of (fields_filled, total_fields) \<Rightarrow>
        (case query_selector q Sel_heading of
           Raises \<Rightarrow> (fields_filled, total_fields)
         | Returns None \<Rightarrow> (fields_filled, total_fields)
         | Returns (Some heading) \<Rightarrow>
             (case inner_text heading of
                Raises \<Rightarrow> (fields_filled, total_fields)
              | Returns t \<Rightarrow>
                  (let q_text = lower (strip (replace ''*'' [] (strip t))) in
                   if q_text = [] \<or> length q_text < 2 then (fields_filled, total_fields)
                   else (let total_fields = total_fields + 1;
                             v = get_value_for_field q_text data
                         in if v = [] then (fields_filled, total_fields)
                            else (case fst (fill_field pg q v) of
                                    Raises \<Rightarrow> (fields_filled, total_fields)
                                  | Returns success \<Rightarrow>
                                      if success then (fields_filled + 1, total_fields)
                                      else (fields_filled, total_fields)))))))"

fun question_loop :: "page \<Rightarrow> field_map \<Rightarrow> question list \<Rightarrow> nat \<times> nat \<Rightarrow> nat \<times> nat" where
  "question_loop pg data [] counts = counts"
| "question_loop pg data (q # qs) counts =
     question_loop pg data qs (question_step pg data q counts)"

text \<open>The rewriting of the URL at the head of \<open>fill_form\<close> of \<open>form_filler_sync.py\<close>.\<close>

definition viewform_url :: "string \<Rightarrow> string" where
  "viewform_url url =
     (if sublist ''/preview'' url then replace ''/preview'' ''/viewform'' url else url)"

text \<open>
  The hold-open loop \<open>while True: try: page.title(); time.sleep(1) except: break\<close>, from
  the \<open>k\<close>-th poll on: the number of the poll that fails, \<open>None\<close> when none ever does and
  the loop runs forever.
\<close>

partial_function (option) hold_open :: "(nat \<Rightarrow> bool) \<Rightarrow> nat \<Rightarrow> nat option" where
  [code]: "hold_open alive k = (if alive k then hold_open alive (Suc k) else Some k)"

text \<open>
  The inner \<open>try\<close> block of the session up to the screenshot: the counts and the name of
  the screenshot, or the exception that sends control to the handler.
\<close>

definition session_sync :: "page \<Rightarrow> string \<Rightarrow> field_map \<Rightarrow> (nat \<times> nat \<times> string) outcome" where
  "session_sync pg url data =
     (if \<not> goto pg url then Raises
      else if \<not> wait_for_timeout pg then Raises
      else if \<not> wait_for_selector pg then Raises
      else (case listitems pg of
              Raises \<Rightarrow> Raises
            | Returns questions \<Rightarrow>
                (case question_loop_sync pg data questions (0, 0) of
                   (fields_filled, total_fields) \<Rightarrow>
                     if \<not> wait_for_timeout pg then Raises
                     else if \<not> screenshot pg then Raises
                     else Returns (fields_filled, total_fields, ''filled_form.png''))))"

text \<open>
  \<open>fill_form\<close> of \<open>form_filler_sync.py\<close>: the URLs passed to \<open>page.goto\<close>, and what the
  caller gets, \<open>None\<close> when the call never returns. Both the normal path and the handler
  hold the browser open before the result or the exception reaches the caller.
\<close>

definition fill_form_sync ::
  "page \<Rightarrow> string \<Rightarrow> field_map \<Rightarrow> string list \<times> (nat \<times> nat \<times> string) outcome option" where
  "fill_form_sync pg url data =
     (let url = viewform_url url in
      if \<not> launch pg then ([], Some Raises)
      else (case hold_open (title pg) 0 of
              None \<Rightarrow> ([url], None)
            | Some _ \<Rightarrow> ([url], Some (session_sync pg url data))))"

text \<open>\<open>fill_form\<close> of \<open>form_filler.py\<close>: no rewriting of the URL, and the browser is closed.\<close>

definition fill_form ::
  "page \<Rightarrow> string \<Rightarrow> field_map \<Rightarrow> string list \<times> (nat \<times> nat \<times> string) outcome" where
  "fill_form pg url data =
     (if \<not> launch pg then ([], Raises)
      else if \<not> goto pg url then ([url], Raises)
      else if \<not> wait_for_timeout pg then ([url], Raises)
      else (case listitems pg of
              Raises \<Rightarrow> ([url], Raises)
            | Returns questions \<Rightarrow>
                (case question_loop pg data questions (0, 0) of
                   (fields_filled, total_fields) \<Rightarrow>
                     if \<not> wait_for_timeout pg then ([url], Raises)
                     else if \<not> screenshot pg then ([url], Raises)
                     else ([url], Returns (fields_filled, total_fields, ''filled_form.png'')))))"

section \<open>A small form\<close>

text \<open>
  Concrete controls, questions and pages: a text box whose reported value differs from
  what was typed, a radio label, a contenteditable region, and a form of two questions.
\<close>

definition healthy_control :: control where
  "healthy_control =
     \<lparr>is_visible = Returns True, inner_text = Returns [], scroll_into_view = True,
      click = True, focus = True, clear = True, type_value = (\<lambda>v. True),
      input_value = (\<lambda>v. Returns v), select_option = (\<lambda>v. True),
      script_write = (\<lambda>v. True)\<rparr>"

definition masked_text_box :: control where
  "masked_text_box = healthy_control\<lparr>input_value := (\<lambda>v. Returns ''(987) 654-3210'')\<rparr>"

definition male_label :: control where
  "male_label = healthy_control\<lparr>inner_text := Returns '' Male ''\<rparr>"

definition heading_of :: "string \<Rightarrow> control" where
  "heading_of t = healthy_control\<lparr>inner_text := Returns t\<rparr>"

definition empty_question :: question where
  "empty_question =
     \<lparr>query_selector = (\<lambda>sel. Returns None), query_selector_all = (\<lambda>sel. Returns [])\<rparr>"

definition radio_question :: question where
  "radio_question =
     empty_question\<lparr>query_selector_all :=
       (\<lambda>sel. if sel = Sel_label then Returns [male_label] else Returns [])\<rparr>"

definition editable_question :: question where
  "editable_question =
     empty_question\<lparr>query_selector_all :=
       (\<lambda>sel. if sel = Sel_contenteditable then Returns [healthy_control] else Returns [])\<rparr>"

definition phone_question :: question where
  "phone_question =
     \<lparr>query_selector =
        (\<lambda>sel. if sel = Sel_heading then Returns (Some (heading_of ''Phone number *''))
               else Returns None),
      query_selector_all =
        (\<lambda>sel. if sel = Sel_input_tel \<or> sel = Sel_text_inputs then Returns [masked_text_box]
               else Returns [])\<rparr>"

definition colour_question :: question where
  "colour_question =
     empty_question\<lparr>query_selector :=
       (\<lambda>sel. if sel = Sel_heading then Returns (Some (heading_of ''Favourite colour''))
              else Returns None)\<rparr>"

definition small_form :: page where
  "small_form =
     \<lparr>launch = True, goto = (\<lambda>url. True), wait_for_timeout = True, wait_for_selector = True,
      listitems = Returns [phone_question, colour_question], screenshot = True,
      title = (\<lambda>k. k < 3)\<rparr>"

definition phone_data :: field_map where
  "phone_data = [''phone'' \<mapsto> ''9876543210'']"

text \<open>A document no library can read.\<close>

definition unreadable :: document where
  "unreadable = \<lparr>pypdf2_pages = Raises, pdfplumber_pages = Raises, ocr_pages = Raises\<rparr>"

section \<open>Specification-level notions\<close>

text \<open>The state after the two text-layer strategies.\<close>

definition text_layers :: "document \<Rightarrow> acquisition" where
  "text_layers doc =
     fst (try_except (read_source PDFPlumber (pdfplumber_pages doc))
       (fst (try_except (read_source PyPDF2 (pypdf2_pages doc)) \<lparr>texts = [], tried = []\<rparr>)))"

text \<open>The strategies each filler has, in the order it enters them.\<close>

definition sync_order :: "strategy list" where
  "sync_order = [DirectInput, Editable, ScriptWrite]"

definition async_order :: "strategy list" where
  "async_order = [DirectInput, ChoiceControl, Dropdown]"

text \<open>The first element of a list, if any (\<open>matches[0]\<close> under \<open>if matches\<close>).\<close>

definition list_head :: "'a list \<Rightarrow> 'a option" where
  "list_head xs = (case xs of [] \<Rightarrow> None | x # _ \<Rightarrow> Some x)"

text \<open>
  The first match of a pattern in a text, case-insensitively: the match found at the
  leftmost position at which the pattern matches at all.
\<close>

definition first_match :: "regex \<Rightarrow> string \<Rightarrow> string option" where
  "first_match r text =
     (case find (\<lambda>pos. rmatch True r text pos \<noteq> []) [0..<Suc (length text)] of
        None \<Rightarrow> None
      | Some pos \<Rightarrow> Some (take (hd (rmatch True r text pos)) (drop pos text)))"

text \<open>The step of \<open>max\<close>: keep the best so far unless the next one is strictly greater.\<close>

abbreviation (input) pick :: "('a \<Rightarrow> nat) \<Rightarrow> 'a \<Rightarrow> 'a \<Rightarrow> 'a" where
  "pick key \<equiv> (\<lambda>best x. if key best < key x then x else best)"

text \<open>The text of the extraction scenario.\<close>

definition scenario_text :: string where
  "scenario_text = ''John Michael Smith'' @ [newline] @ ''Government of India'' @ [newline]
       @ ''DOB: 01/02/1990'' @ [newline] @ ''Email: john@x.com''"




declare findall_from.simps [simp del] replace.simps [simp del]

section \<open>Properties of the Field Matcher\<close>

lemma first_hit_value_Nil: "first_hit_value [] field data = []"
  by (simp add: first_hit_value_def first_hit_def)

lemma first_hit_value_Cons:
  "first_hit_value (cat # cats) field data =
     (if any_in (fst cat) field then dict_get data (snd cat) else first_hit_value cats field data)"
  by (simp add: first_hit_value_def first_hit_def hit_def)

lemma first_bound_hit_value_Nil: "first_bound_hit_value [] field data = []"
  by (simp add: first_bound_hit_value_def first_bound_hit_def)

lemma first_bound_hit_value_Cons:
  "first_bound_hit_value (cat # cats) field data =
     sync_case (fst cat) (snd cat) field data (first_bound_hit_value cats field data)"
  by (auto simp add: first_bound_hit_value_def first_bound_hit_def hit_def sync_case_def
      dict_get_def split: option.splits)

lemma get_value_for_field_first_hit:
  "get_value_for_field label data = first_hit_value categories (lower label) data"
  unfolding get_value_for_field_def categories_def Let_def
  by (simp only: first_hit_value_Cons first_hit_value_Nil fst_conv snd_conv)

lemma get_value_for_field_sync_first_bound_hit:
  "get_value_for_field_sync label data = first_bound_hit_value categories_sync (lower label) data"
  unfolding get_value_for_field_sync_def categories_sync_def Let_def
  by (simp only: first_bound_hit_value_Cons first_bound_hit_value_Nil fst_conv snd_conv)

lemma category_keys:
  "map snd categories =
     [''name'', ''email'', ''phone'', ''aadhaar'', ''pan'', ''address'', ''pincode'', ''date'']"
  "map snd categories_sync =
     [''name'', ''email'', ''phone'', ''aadhaar'', ''pan'', ''address'', ''pincode'', ''date'']"
  by (simp_all add: categories_def categories_sync_def)

text \<open>
  Claim C1, as stated, on \<open>form_filler_sync.py\<close>: the label "Email address" hits the email
  keywords first, the field map binds no email but an address, and the claim has the
  matcher return the (absent, so empty) email value. The code skips the category whose key
  is absent and returns the address.
\<close>

theorem C1_sync_first_hit_counterexample:
  "first_hit categories_sync (lower ''Email address'') =
     Some ([''email'', ''e-mail'', ''mail'', ''electronic''], ''email'')
   \<and> first_hit_value categories_sync (lower ''Email address'')
        [''address'' \<mapsto> ''12 Main Road''] = []
   \<and> get_value_for_field_sync ''Email address'' [''address'' \<mapsto> ''12 Main Road'']
        = ''12 Main Road''"
  by code_simp

text \<open>
  Claim C1, amended. Both matchers test the keyword sets in the priority order name, email,
  phone, aadhaar, pan, address, pincode, date against the lowercased label and return at
  most one value. The matcher of \<open>form_filler.py\<close> returns the value of the first category
  with a keyword hit, the empty string when that category's key is absent from the field
  map. The matcher of \<open>form_filler_sync.py\<close> returns the value of the first category that
  has a keyword hit and whose key is present in the field map, the empty string when there
  is none.
\<close>

theorem C1_matcher_priority_order:
  "map snd categories =
     [''name'', ''email'', ''phone'', ''aadhaar'', ''pan'', ''address'', ''pincode'', ''date'']
   \<and> map snd categories_sync = map snd categories
   \<and> get_value_for_field label data = first_hit_value categories (lower label) data
   \<and> get_value_for_field_sync label data
        = first_bound_hit_value categories_sync (lower label) data"
  using category_keys get_value_for_field_first_hit [of label data]
    get_value_for_field_sync_first_bound_hit [of label data]
  by simp

theorem C1_matcher_priority_order_witness:
  "get_value_for_field ''Email address'' [''address'' \<mapsto> ''12 Main Road''] = []
   \<and> get_value_for_field_sync ''Name and e-mail'' [''email'' \<mapsto> ''john@x.com''] = ''john@x.com''"
proof -
  have spec1: "first_hit_value categories (lower ''Email address'')
                 [''address'' \<mapsto> ''12 Main Road''] = []"
    by code_simp
  have spec2: "first_bound_hit_value categories_sync (lower ''Name and e-mail'')
                 [''email'' \<mapsto> ''john@x.com''] = ''john@x.com''"
    by code_simp
  show ?thesis
    using C1_matcher_priority_order [of "''Email address''" "[''address'' \<mapsto> ''12 Main Road'']"]
      C1_matcher_priority_order [of "''Name and e-mail''" "[''email'' \<mapsto> ''john@x.com'']"]
      spec1 spec2
    by simp
qed

section \<open>Properties of the regular expressions and of the Field Extractor\<close>

lemma findall_from_past_end: "length text < pos \<Longrightarrow> findall_from ic r text pos m = []"
  by (subst findall_from.simps) simp

lemma findall_from_no_match:
  "pos \<le> length text \<Longrightarrow> rmatch ic r text pos = [] \<Longrightarrow>
   findall_from ic r text pos False = findall_from ic r text (Suc pos) False"
  by (subst findall_from.simps) simp

lemma findall_from_match:
  "pos \<le> length text \<Longrightarrow> rmatch ic r text pos = n # ns \<Longrightarrow>
   findall_from ic r text pos False
     = take n (drop pos text) # findall_from ic r text (pos + n) (n = 0)"
  by (subst findall_from.simps) simp

lemma head_findall_from:
  "list_head (findall_from ic r text pos False) =
     (case find (\<lambda>p. rmatch ic r text p \<noteq> []) [pos..<Suc (length text)] of
        None \<Rightarrow> None
      | Some p \<Rightarrow> Some (take (hd (rmatch ic r text p)) (drop p text)))"
proof (induction k \<equiv> "Suc (length text) - pos" arbitrary: pos)
  case 0
  then have "length text < pos" by simp
  then show ?case by (simp add: findall_from_past_end list_head_def)
next
  case (Suc k)
  then have le: "pos \<le> length text" and k: "k = Suc (length text) - Suc pos" by simp_all
  have upt: "[pos..<Suc (length text)] = pos # [Suc pos..<Suc (length text)]"
    using le by (simp add: upt_conv_Cons)
  show ?case
  proof (cases "rmatch ic r text pos")
    case Nil
    then show ?thesis
      using Suc.hyps(1) [OF k] le by (simp add: findall_from_no_match upt del: upt_Suc)
  next
    case (Cons n ns)
    then show ?thesis
      using le by (simp add: findall_from_match upt list_head_def del: upt_Suc)
  qed
qed

lemma head_findall: "list_head (findall True r text) = first_match r text"
  by (simp add: findall_def first_match_def head_findall_from)

lemma sublist_slice: "sublist (take n (drop p text)) text"
  by (meson sublist_drop sublist_order.order.trans sublist_take)

lemma sublist_strip: "sublist (strip s) s"
proof -
  have "sublist (rev (strip s)) (rev (dropWhile is_space s))"
    unfolding strip_def by simp
  then have "sublist (strip s) (dropWhile is_space s)" by (simp only: sublist_rev)
  then show ?thesis by (meson sublist_dropWhile sublist_order.order.trans)
qed

lemma first_match_sublist: "first_match r text = Some m \<Longrightarrow> sublist m text"
  by (auto simp: first_match_def sublist_slice split: option.splits)

lemma regex_loop_other:
  "key \<notin> fst ` set ps \<Longrightarrow> regex_loop ps text data key = data key"
  by (induction ps "text" data rule: regex_loop.induct) (auto split: list.splits)

lemma regex_loop_key:
  "distinct (map fst ps) \<Longrightarrow> (key, pattern) \<in> set ps \<Longrightarrow>
   regex_loop ps text data key =
     (case list_head (findall True pattern text) of None \<Rightarrow> data key | Some m \<Rightarrow> Some (strip m))"
proof (induction ps arbitrary: data)
  case Nil
  then show ?case by simp
next
  case (Cons kp ps)
  obtain k p where kp: "kp = (k, p)" by (cases kp)
  show ?case
  proof (cases "key = k")
    case True
    with Cons.prems kp have p: "pattern = p" and notin: "key \<notin> fst ` set ps" by force+
    have other: "\<And>d. regex_loop ps text d k = d k"
      using notin True by (simp add: regex_loop_other)
    show ?thesis
      using True by (simp add: kp p other list_head_def split: list.splits)
  next
    case False
    with Cons.prems kp have in_ps: "(key, pattern) \<in> set ps" and d: "distinct (map fst ps)"
      by auto
    show ?thesis
    proof (cases "findall True p text")
      case Nil
      then show ?thesis using Cons.IH [OF d in_ps, of data] by (simp add: kp)
    next
      case (Cons m ms)
      have "regex_loop ps text (data(k \<mapsto> strip m)) key =
              (case list_head (findall True pattern text) of
                 None \<Rightarrow> (data(k \<mapsto> strip m)) key | Some m \<Rightarrow> Some (strip m))"
        by (rule Cons.IH [OF d in_ps])
      then show ?thesis
        using Cons False by (simp add: kp split: option.splits)
    qed
  qed
qed

lemma set_if_truthy_other: "k \<noteq> key \<Longrightarrow> set_if_truthy key v data k = data k"
  by (simp add: set_if_truthy_def split: option.splits)

lemma patterns_keys:
  "distinct (map fst patterns)" "''name'' \<notin> fst ` set patterns" "''address'' \<notin> fst ` set patterns"
  by (simp_all add: patterns_def)

lemma extract_structured_data_regex_key:
  assumes "(key, pattern) \<in> set patterns"
  shows "extract_structured_data qa text Map.empty key = map_option strip (first_match pattern text)"
proof -
  have "key \<in> fst ` set patterns" using assms by force
  then have "key \<noteq> ''name''" "key \<noteq> ''address''" using patterns_keys by blast+
  then have "extract_structured_data qa text Map.empty key = regex_loop patterns text Map.empty key"
    by (simp add: extract_structured_data_def set_if_truthy_other Let_def)
  also have "\<dots> = map_option strip (first_match pattern text)"
    using regex_loop_key [OF patterns_keys(1) assms, of "text" Map.empty]
    by (simp add: head_findall split: option.splits)
  finally show ?thesis .
qed





lemma foldl_pick_split:
  "\<exists>pre post. b # xs = pre @ foldl (pick key) b xs # post
     \<and> (\<forall>x\<in>set pre. key x < key (foldl (pick key) b xs))
     \<and> (\<forall>x\<in>set post. key x \<le> key (foldl (pick key) b xs))"
proof (induction xs rule: rev_induct)
  case Nil
  show ?case by (intro exI [of _ "[]"]) simp
next
  case (snoc x xs)
  let ?m = "foldl (pick key) b xs"
  from snoc obtain pre post where
    split: "b # xs = pre @ ?m # post"
    and pre: "\<forall>y\<in>set pre. key y < key ?m" and post: "\<forall>y\<in>set post. key y \<le> key ?m"
    by blast
  show ?case
  proof (cases "key ?m < key x")
    case True
    have "b # xs @ [x] = (pre @ ?m # post) @ x # []" using split by simp
    moreover have "\<forall>y\<in>set (pre @ ?m # post). key y < key x"
      using pre post True by fastforce
    ultimately show ?thesis using True
      by (intro exI [of _ "pre @ ?m # post"] exI [of _ "[]"]) simp
  next
    case False
    have "b # xs @ [x] = pre @ ?m # (post @ [x])" using split by simp
    moreover have "\<forall>y\<in>set (post @ [x]). key y \<le> key ?m" using post False by auto
    ultimately show ?thesis using False pre
      by (intro exI [of _ pre] exI [of _ "post @ [x]"]) simp
  qed
qed

lemma max_by_split:
  assumes "xs \<noteq> []"
  shows "\<exists>pre post. xs = pre @ max_by key xs # post
     \<and> (\<forall>x\<in>set pre. key x < key (max_by key xs))
     \<and> (\<forall>x\<in>set post. key x \<le> key (max_by key xs))"
proof -
  from assms obtain b ys where xs: "xs = b # ys" by (cases xs) auto
  show ?thesis using foldl_pick_split [of b ys key] by (simp add: xs max_by_def)
qed

lemma max_by_in: "xs \<noteq> [] \<Longrightarrow> max_by key xs \<in> set xs"
  using max_by_split [of xs key] by (metis in_set_conv_decomp)

lemma max_by_ge: "x \<in> set xs \<Longrightarrow> key x \<le> key (max_by key xs)"
proof -
  assume x: "x \<in> set xs"
  then have "xs \<noteq> []" by auto
  from max_by_split [OF this, of key] obtain pre post where
    "xs = pre @ max_by key xs # post"
    "\<forall>x\<in>set pre. key x < key (max_by key xs)" "\<forall>x\<in>set post. key x \<le> key (max_by key xs)"
    by blast
  then show ?thesis using x
    by (metis Un_iff le_refl less_imp_le_nat set_ConsD set_append)
qed


lemma better_names_unreachable:
  assumes "names \<noteq> []" "name_len (max_by name_len names) < 6"
  shows "filter (\<lambda>n. 6 \<le> name_len n) names = []"
proof -
  have "\<forall>n\<in>set names. name_len n < 6"
    using max_by_ge [of _ names name_len] assms(2) by (meson le_less_trans)
  then show ?thesis by (auto simp: filter_empty_conv)
qed

lemma name_strategy1_eq:
  "name_strategy1 text =
     (if potential_names text = [] then None
      else Some (max_by name_len (potential_names text)))"
  by (auto simp: name_strategy1_def Let_def better_names_unreachable)

lemma name_strategy1_candidate:
  "name_strategy1 text = Some name \<Longrightarrow> name_candidate name"
proof -
  assume "name_strategy1 text = Some name"
  then have "name \<in> set (potential_names text)"
    by (auto simp: name_strategy1_eq max_by_in split: if_splits)
  then show ?thesis by (simp add: potential_names_def)
qed

lemma in_class_False: "in_class False P = P"
  by (rule ext) (simp add: in_class_def)

lemma re_search_iff:
  "re_search r s \<longleftrightarrow> (\<exists>p\<le>length s. rmatch False r s p \<noteq> [])"
proof -
  have "re_search r s \<longleftrightarrow> list_head (findall_from False r s 0 False) \<noteq> None"
    by (simp add: re_search_def findall_def list_head_def split: list.splits)
  also have "\<dots> \<longleftrightarrow> find (\<lambda>p. rmatch False r s p \<noteq> []) [0..<Suc (length s)] \<noteq> None"
    by (simp add: head_findall_from split: option.splits)
  also have "\<dots> \<longleftrightarrow> (\<exists>p\<le>length s. rmatch False r s p \<noteq> [])"
    by (auto simp: find_None_iff less_Suc_eq_le simp del: upt_Suc)
  finally show ?thesis .
qed

lemma digit_run_found:
  assumes "Suc i < length s" "is_digit (s ! i)" "is_digit (s ! Suc i)"
  shows "re_search digit_run_re s"
proof -
  have "drop i s = s ! i # s ! Suc i # drop (Suc (Suc i)) s"
    using assms(1) by (simp add: Cons_nth_drop_Suc Suc_lessD)
  then have "2 \<le> length (takeWhile is_digit (drop i s))"
    using assms(2,3) by simp
  then have "rmatch False digit_run_re s i \<noteq> []"
    by (simp add: digit_run_re_def in_class_False rep_lengths_def Let_def)
  moreover have "i \<le> length s" using assms(1) by simp
  ultimately show ?thesis unfolding re_search_iff by blast
qed

lemma special_found:
  assumes "c \<in> set s" "\<not> (ascii_letter c \<or> is_space c \<or> c = CHR ''.'')"
  shows "re_search special_re s"
proof -
  from assms(1) obtain i where i: "i < length s" "s ! i = c" by (auto simp: in_set_conv_nth)
  then have "rmatch False special_re s i \<noteq> []"
    using assms(2) by (simp add: special_re_def in_class_def)
  then show ?thesis unfolding re_search_iff using i(1) by (meson less_imp_le_nat)
qed

lemma name_candidate_no_digit_run:
  "name_candidate name \<Longrightarrow>
   \<not> (\<exists>i. Suc i < length name \<and> is_digit (name ! i) \<and> is_digit (name ! Suc i))"
  using digit_run_found [of _ name] by (auto simp: name_candidate_def split: if_splits)

lemma name_candidate_no_skip_word:
  "name_candidate name \<Longrightarrow> \<forall>w\<in>set skip_words. \<not> sublist w (lower name)"
  by (auto simp: name_candidate_def any_in_def list_ex_iff split: if_splits)

lemma name_candidate_chars:
  "name_candidate name \<Longrightarrow> \<forall>c\<in>set name. ascii_letter c \<or> is_space c \<or> c = CHR ''.''"
  using special_found [of _ name] by (auto simp: name_candidate_def split: if_splits)

text \<open>
  The character classes beyond ASCII at work: a letter with an accent is a word character,
  so no word boundary separates it from a digit; the no-break space is whitespace for
  \<open>\s\<close>, \<open>strip\<close> and \<open>split\<close>.
\<close>

lemma latin1_word_boundary: "findall True pincode_re (CHR 0xE9 # ''123456'') = []"
  by code_simp

lemma latin1_whitespace_in_pattern:
  "findall True aadhaar_re (''1234'' @ [CHR 0xA0] @ ''5678'' @ [CHR 0xA0] @ ''9012'')
     = [''1234'' @ [CHR 0xA0] @ ''5678'' @ [CHR 0xA0] @ ''9012'']"
  by code_simp

lemma latin1_whitespace_in_name:
  "name_strategy1 (''John'' @ [CHR 0xA0] @ ''Smith'' @ [CHR 0xA0])
     = Some (''John'' @ [CHR 0xA0] @ ''Smith'')"
  by code_simp

section \<open>The extraction scenario\<close>

lemma scenario_email: "findall True email_re scenario_text = [''john@x.com'']"
  by code_simp

lemma scenario_date: "findall True date_re scenario_text = [''01/02/1990'']"
  by code_simp

lemma scenario_lines:
  "map strip (split_on newline scenario_text) =
     [''John Michael Smith'', ''Government of India'', ''DOB: 01/02/1990'', ''Email: john@x.com'']"
  by code_simp

lemma scenario_candidates:
  "name_candidate ''John Michael Smith''" "\<not> name_candidate ''Government of India''"
  "\<not> name_candidate ''DOB: 01/02/1990''" "\<not> name_candidate ''Email: john@x.com''"
  by code_simp+

lemma scenario_denylist: "any_in skip_words (lower ''Government of India'')"
  by code_simp

lemma scenario_potential_names: "potential_names scenario_text = [''John Michael Smith'']"
  by (simp add: potential_names_def scenario_lines scenario_candidates)

lemma scenario_name: "name_strategy1 scenario_text = Some ''John Michael Smith''"
  by (simp add: name_strategy1_eq scenario_potential_names max_by_def)

lemma strip_scenario: "strip ''john@x.com'' = ''john@x.com''" "strip ''01/02/1990'' = ''01/02/1990''"
  by code_simp+

lemma extract_structured_data_other:
  "key \<noteq> ''name'' \<Longrightarrow> key \<noteq> ''address'' \<Longrightarrow>
   extract_structured_data qa text data key = regex_loop patterns text data key"
  by (simp add: extract_structured_data_def set_if_truthy_other Let_def)

lemma extract_structured_data_name:
  "name_strategy1 text = Some name \<Longrightarrow> name \<noteq> [] \<Longrightarrow>
   extract_structured_data qa text data ''name'' = Some name"
proof -
  assume a: "name_strategy1 text = Some name" "name \<noteq> []"
  have "extract_structured_data qa text data ''name'' =
          set_if_truthy ''name'' (extract_name_improved qa text) (regex_loop patterns text data) ''name''"
    by (simp add: extract_structured_data_def Let_def set_if_truthy_other)
  also have "\<dots> = Some name"
    using a by (simp add: extract_name_improved_def set_if_truthy_def)
  finally show ?thesis .
qed

text \<open>
  Claim C9. On the text "John Michael Smith / Government of India / DOB: 01/02/1990 /
  Email: john@x.com" (four lines), whatever the question-answering collaborator does,
  extraction binds name to "John Michael Smith", date to "01/02/1990" and email to
  "john@x.com"; "Government of India" is one of the stripped lines, it contains a word of
  the denylist, and it is not among the name candidates.
\<close>

theorem C9_scenario:
  "extract_structured_data qa scenario_text Map.empty ''name'' = Some ''John Michael Smith''
   \<and> extract_structured_data qa scenario_text Map.empty ''date'' = Some ''01/02/1990''
   \<and> extract_structured_data qa scenario_text Map.empty ''email'' = Some ''john@x.com''
   \<and> ''Government of India'' \<in> set (map strip (split_on newline scenario_text))
   \<and> any_in skip_words (lower ''Government of India'')
   \<and> ''Government of India'' \<notin> set (potential_names scenario_text)"
proof -
  have "(''email'', email_re) \<in> set patterns" "(''date'', date_re) \<in> set patterns"
    by (simp_all add: patterns_def)
  then have "regex_loop patterns scenario_text Map.empty ''email'' = Some ''john@x.com''"
    and "regex_loop patterns scenario_text Map.empty ''date'' = Some ''01/02/1990''"
    using regex_loop_key [OF patterns_keys(1), of _ _ scenario_text Map.empty]
    by (simp_all add: scenario_email scenario_date list_head_def strip_scenario)
  then show ?thesis
    by (simp add: extract_structured_data_other extract_structured_data_name scenario_name
        scenario_denylist scenario_potential_names scenario_lines)
qed

theorem C9_scenario_witness:
  "extract_structured_data None scenario_text Map.empty ''name'' = Some ''John Michael Smith''
   \<and> extract_structured_data None scenario_text Map.empty ''email'' = Some ''john@x.com''"
  using C9_scenario [of None] by simp


section \<open>Claims about the Field Extractor\<close>

text \<open>
  Claim C5. For every text and each of the six regex fields (email, phone, aadhaar, pan,
  pincode, date), \<open>extract_structured_data\<close>, started on the empty \<open>self.data\<close>, binds
  the field exactly when its pattern matches somewhere in the text, and then to the first
  case-insensitive match, stripped; the field map holds at most one value per key, and the
  bound value is a substring of the text.
\<close>

theorem C5_regex_field_first_match:
  assumes "(key, pattern) \<in> set patterns"
  shows "extract_structured_data qa text Map.empty key
           = map_option strip (first_match pattern text)
         \<and> (\<forall>v. extract_structured_data qa text Map.empty key = Some v \<longrightarrow> sublist v text)"
proof -
  have eq: "extract_structured_data qa text Map.empty key
              = map_option strip (first_match pattern text)"
    using assms by (rule extract_structured_data_regex_key)
  have "sublist v text" if "map_option strip (first_match pattern text) = Some v" for v
  proof -
    from that obtain m where m: "first_match pattern text = Some m" and v: "v = strip m"
      by auto
    have "sublist v m" unfolding v by (rule sublist_strip)
    moreover have "sublist m text" using m by (rule first_match_sublist)
    ultimately show ?thesis by (rule sublist_order.order.trans)
  qed
  with eq show ?thesis by simp
qed

theorem C5_regex_field_first_match_witness:
  "(''email'', email_re) \<in> set patterns
   \<and> extract_structured_data None ''mail a@b.co now'' Map.empty ''email'' = Some ''a@b.co''
   \<and> sublist ''a@b.co'' ''mail a@b.co now''"
proof -
  have p: "(''email'', email_re) \<in> set patterns" by (simp add: patterns_def)
  have m: "map_option strip (first_match email_re ''mail a@b.co now'') = Some ''a@b.co''"
    by code_simp
  show ?thesis
    using p m C5_regex_field_first_match [OF p, of None "''mail a@b.co now''"] by simp
qed

text \<open>
  Claim C4. A name returned by Strategy 1 (the line heuristic) has no two consecutive
  digits, and its lowercase form contains no word of the denylist.
\<close>

theorem C4_strategy1_no_digit_run_no_denylist_word:
  assumes "name_strategy1 text = Some name"
  shows "\<not> (\<exists>i. Suc i < length name \<and> is_digit (name ! i) \<and> is_digit (name ! Suc i))
         \<and> (\<forall>w\<in>set skip_words. \<not> sublist w (lower name))"
proof -
  have "name_candidate name" using assms by (rule name_strategy1_candidate)
  then show ?thesis
    using name_candidate_no_digit_run name_candidate_no_skip_word by blast
qed

theorem C4_strategy1_no_digit_run_no_denylist_word_witness:
  "name_strategy1 scenario_text = Some ''John Michael Smith''
   \<and> \<not> (\<exists>i. Suc i < length ''John Michael Smith''
            \<and> is_digit (''John Michael Smith'' ! i) \<and> is_digit (''John Michael Smith'' ! Suc i))
   \<and> \<not> sublist ''india'' (lower ''John Michael Smith'')"
proof -
  have "''india'' \<in> set skip_words" by (simp add: skip_words_def)
  then show ?thesis
    using scenario_name C4_strategy1_no_digit_run_no_denylist_word [OF scenario_name]
    by blast
qed




section \<open>Claims about Text Acquisition\<close>

lemma try_except_returns: "snd (try_except body s) = Returns ()"
  by (simp add: try_except_def split: prod.splits outcome.splits)

lemma try_except_state: "fst (try_except body s) = fst (body s)"
  by (simp add: try_except_def split: prod.splits outcome.splits)

lemma ocr_if_needed_returns: "snd (ocr_if_needed doc s) = Returns ()"
  by (simp add: ocr_if_needed_def try_except_returns)

lemma and_then_returns:
  "(\<And>s. snd (b1 s) = Returns ()) \<Longrightarrow> (\<And>s. snd (b2 s) = Returns ()) \<Longrightarrow>
   snd (and_then b1 b2 s) = Returns ()"
proof -
  assume b1: "\<And>s. snd (b1 s) = Returns ()" and b2: "\<And>s. snd (b2 s) = Returns ()"
  obtain s' where "b1 s = (s', Returns ())" using b1 [of s] by (cases "b1 s") auto
  then show ?thesis using b2 [of s'] by (simp add: and_then_def)
qed

lemma and_then_state:
  "snd (b1 s) = Returns () \<Longrightarrow> fst (and_then b1 b2 s) = fst (b2 (fst (b1 s)))"
  by (cases "b1 s") (auto simp: and_then_def)

lemma read_pages_tried: "tried (fst (read_pages ps s)) = tried s"
  by (induction ps s rule: read_pages.induct) simp_all

lemma read_source_tried: "tried (fst (read_source src pages s)) = tried s @ [src]"
  by (simp add: read_source_def Let_def read_pages_tried split: outcome.splits)

lemma read_source_raises_texts: "texts (fst (read_source src Raises s)) = texts s"
  by (simp add: read_source_def Let_def)

lemma text_layers_tried: "tried (text_layers doc) = [PyPDF2, PDFPlumber]"
  by (simp add: text_layers_def try_except_state read_source_tried)

lemma extract_text_run_state:
  "fst (extract_text_run doc) = fst (ocr_if_needed doc (text_layers doc))"
  by (simp add: extract_text_run_def and_then_state try_except_returns text_layers_def)

lemma extract_text_run_returns: "snd (extract_text_run doc) = Returns ()"
  unfolding extract_text_run_def
  by (intro and_then_returns try_except_returns ocr_if_needed_returns)

lemma extract_text_returns:
  "extract_text doc = Returns (join [newline, newline] (texts (fst (extract_text_run doc))))"
  using extract_text_run_returns [of doc]
  by (cases "extract_text_run doc") (auto simp: extract_text_def)

lemma extract_text_run_tried:
  "tried (fst (extract_text_run doc)) =
     (if needs_ocr (texts (text_layers doc)) then [PyPDF2, PDFPlumber, OCR]
      else [PyPDF2, PDFPlumber])"
  by (simp add: extract_text_run_state ocr_if_needed_def try_except_state read_source_tried
      text_layers_tried)

lemma text_layers_unreadable:
  "pypdf2_pages doc = Raises \<Longrightarrow> pdfplumber_pages doc = Raises \<Longrightarrow> texts (text_layers doc) = []"
  by (simp add: text_layers_def try_except_state read_source_raises_texts)

text \<open>
  Claim C6. For every document \<open>extract_text\<close> returns a text and never raises: the
  failure of a strategy is caught where it occurs, the PDFPlumber strategy is entered
  whatever PyPDF2 did, OCR is entered exactly when the text layers gave nothing or fewer
  than 200 characters, and when nothing was collected (as when all three strategies fail)
  the result is the empty text.
\<close>

theorem C6_extract_text_never_raises:
  "(\<exists>t. extract_text doc = Returns t)
   \<and> tried (fst (extract_text_run doc)) =
       (if needs_ocr (texts (text_layers doc)) then [PyPDF2, PDFPlumber, OCR]
        else [PyPDF2, PDFPlumber])
   \<and> (pypdf2_pages doc = Raises \<and> pdfplumber_pages doc = Raises \<and> ocr_pages doc = Raises
        \<longrightarrow> tried (fst (extract_text_run doc)) = [PyPDF2, PDFPlumber, OCR]
            \<and> extract_text doc = Returns [])
   \<and> (texts (fst (extract_text_run doc)) = [] \<longrightarrow> extract_text doc = Returns [])"
proof -
  have "tried (fst (extract_text_run doc)) = [PyPDF2, PDFPlumber, OCR]
          \<and> extract_text doc = Returns []"
    if "pypdf2_pages doc = Raises" "pdfplumber_pages doc = Raises" "ocr_pages doc = Raises"
  proof -
    have empty: "texts (text_layers doc) = []" using that(1,2) by (rule text_layers_unreadable)
    then have "texts (fst (extract_text_run doc)) = []"
      using that(3)
      by (simp add: extract_text_run_state ocr_if_needed_def needs_ocr_def try_except_state
          read_source_raises_texts)
    then show ?thesis
      using empty by (simp add: extract_text_returns extract_text_run_tried needs_ocr_def)
  qed
  then show ?thesis
    by (simp add: extract_text_returns extract_text_run_tried)
qed

theorem C6_extract_text_never_raises_witness:
  "extract_text unreadable = Returns []
   \<and> tried (fst (extract_text_run unreadable)) = [PyPDF2, PDFPlumber, OCR]"
proof -
  have "pypdf2_pages unreadable = Raises \<and> pdfplumber_pages unreadable = Raises
          \<and> ocr_pages unreadable = Raises"
    by (simp add: unreadable_def)
  then show ?thesis using C6_extract_text_never_raises [of unreadable] by blast
qed

section \<open>Claims about the fill session\<close>

subsection \<open>URL rewriting\<close>

lemma replace_Nil: "old \<noteq> [] \<Longrightarrow> replace old new [] = []"
  by (subst replace.simps) simp

lemma replace_prefix:
  "old \<noteq> [] \<Longrightarrow> prefix old s \<Longrightarrow>
   replace old new s = new @ replace old new (drop (length old) s)"
  by (subst replace.simps) simp

lemma replace_Cons:
  "old \<noteq> [] \<Longrightarrow> \<not> prefix old (c # cs) \<Longrightarrow> replace old new (c # cs) = c # replace old new cs"
  by (subst replace.simps) simp


lemma replace_char: "replace [c] [] s = filter (\<lambda>x. x \<noteq> c) s"
proof (induction s)
  case Nil
  show ?case by (simp add: replace_Nil)
next
  case (Cons x xs)
  show ?case
  proof (cases "x = c")
    case True
    then show ?thesis using Cons by (simp add: replace_prefix [of "[c]" "c # xs"])
  next
    case False
    then show ?thesis using Cons by (simp add: replace_Cons)
  qed
qed








subsection \<open>The counters of a fill session\<close>

lemma question_step_sync_le:
  "f \<le> t \<Longrightarrow> question_step_sync pg data q (f, t) = (f', t') \<Longrightarrow> f' \<le> t'"
  by (auto simp: question_step_sync_def Let_def split: if_splits outcome.splits)

lemma question_step_le:
  "f \<le> t \<Longrightarrow> question_step pg data q (f, t) = (f', t') \<Longrightarrow> f' \<le> t'"
  by (auto simp: question_step_def Let_def split: if_splits outcome.splits option.splits)

lemma question_loop_sync_le:
  "f \<le> t \<Longrightarrow> question_loop_sync pg data qs (f, t) = (f', t') \<Longrightarrow> f' \<le> t'"
proof (induction qs arbitrary: f t)
  case Nil
  then show ?case by simp
next
  case (Cons q qs)
  obtain f1 t1 where step: "question_step_sync pg data q (f, t) = (f1, t1)"
    by (cases "question_step_sync pg data q (f, t)")
  then have "f1 \<le> t1" using Cons.prems(1) question_step_sync_le by blast
  then show ?case using Cons.IH [of f1 t1] Cons.prems(2) step by simp
qed

lemma question_loop_le:
  "f \<le> t \<Longrightarrow> question_loop pg data qs (f, t) = (f', t') \<Longrightarrow> f' \<le> t'"
proof (induction qs arbitrary: f t)
  case Nil
  then show ?case by simp
next
  case (Cons q qs)
  obtain f1 t1 where step: "question_step pg data q (f, t) = (f1, t1)"
    by (cases "question_step pg data q (f, t)")
  then have "f1 \<le> t1" using Cons.prems(1) question_step_le by blast
  then show ?case using Cons.IH [of f1 t1] Cons.prems(2) step by simp
qed

lemma question_loop_sync_append:
  "question_loop_sync pg data (qs @ rest) c
     = question_loop_sync pg data rest (question_loop_sync pg data qs c)"
  by (induction qs arbitrary: c) simp_all

lemma question_loop_append:
  "question_loop pg data (qs @ rest) c = question_loop pg data rest (question_loop pg data qs c)"
  by (induction qs arbitrary: c) simp_all

lemma session_sync_le: "session_sync pg url data = Returns (f, t, s) \<Longrightarrow> f \<le> t"
  by (auto simp: session_sync_def split: if_splits outcome.splits prod.splits
      dest: question_loop_sync_le [rotated])

lemma fill_form_sync_le: "snd (fill_form_sync pg url data) = Some (Returns (f, t, s)) \<Longrightarrow> f \<le> t"
  by (auto simp: fill_form_sync_def Let_def split: if_splits option.splits dest: session_sync_le)

lemma fill_form_le: "snd (fill_form pg url data) = Returns (f, t, s) \<Longrightarrow> f \<le> t"
  by (auto simp: fill_form_def split: if_splits outcome.splits prod.splits
      dest: question_loop_le [rotated])

text \<open>
  Claim C7. In both fill sessions the count of filled fields never exceeds the count of
  question groups: after any number of iterations of the loop over the questions (the
  counters after \<open>n\<close> iterations are those of the loop run on the first \<open>n\<close> questions),
  and in the triple the session returns.
\<close>

theorem C7_filled_le_total:
  "(\<forall>n. fst (question_loop_sync pg data (take n qs) (0, 0))
           \<le> snd (question_loop_sync pg data (take n qs) (0, 0)))
   \<and> (\<forall>n. fst (question_loop pg data (take n qs) (0, 0))
           \<le> snd (question_loop pg data (take n qs) (0, 0)))
   \<and> (\<forall>f t s. snd (fill_form_sync pg url data) = Some (Returns (f, t, s)) \<longrightarrow> f \<le> t)
   \<and> (\<forall>f t s. snd (fill_form pg url data) = Returns (f, t, s) \<longrightarrow> f \<le> t)"
proof -
  have "fst (question_loop_sync pg data qs' (0, 0)) \<le> snd (question_loop_sync pg data qs' (0, 0))"
    for qs'
    using question_loop_sync_le [of 0 0 pg data qs']
    by (cases "question_loop_sync pg data qs' (0, 0)") simp
  moreover have "fst (question_loop pg data qs' (0, 0)) \<le> snd (question_loop pg data qs' (0, 0))"
    for qs'
    using question_loop_le [of 0 0 pg data qs']
    by (cases "question_loop pg data qs' (0, 0)") simp
  ultimately show ?thesis
    using fill_form_sync_le fill_form_le by blast
qed

theorem C7_filled_le_total_witness:
  "snd (fill_form_sync small_form ''https://docs.google.com/forms/d/e/abc/preview'' phone_data)
     = Some (Returns (1, 2, ''filled_form.png''))
   \<and> snd (fill_form small_form ''https://docs.google.com/forms/d/e/abc/viewform'' phone_data)
     = Returns (1, 2, ''filled_form.png'')
   \<and> question_loop_sync small_form phone_data (take 1 [phone_question, colour_question]) (0, 0)
     = (1, 1)
   \<and> (1::nat) \<le> 2"
proof -
  have a: "snd (fill_form_sync small_form ''https://docs.google.com/forms/d/e/abc/preview'' phone_data)
     = Some (Returns (1, 2, ''filled_form.png''))"
    by code_simp
  have b: "snd (fill_form small_form ''https://docs.google.com/forms/d/e/abc/viewform'' phone_data)
     = Returns (1, 2, ''filled_form.png'')"
    by code_simp
  have c: "question_loop_sync small_form phone_data (take 1 [phone_question, colour_question]) (0, 0)
     = (1, 1)"
    by code_simp
  show ?thesis
    using a b c
      C7_filled_le_total [of small_form phone_data "[phone_question, colour_question]"
        "''https://docs.google.com/forms/d/e/abc/preview''"]
    by simp
qed

section \<open>Claims about the Field Filler\<close>

lemma try_in_order_eq:
  "try_in_order ok ss =
     (list_ex ok ss, takeWhile (\<lambda>s. \<not> ok s) ss @ take 1 (dropWhile (\<lambda>s. \<not> ok s) ss))"
  by (induction ss) (auto split: prod.splits)

lemma attempt_input_typed:
  "is_visible inp = Returns True \<Longrightarrow> typed_without_exception pg v inp \<Longrightarrow> attempt_input pg v inp"
  by (simp add: attempt_input_def split: outcome.splits)

lemma direct_inputs_success:
  "\<forall>s\<in>set sels. query_selector_all q s \<noteq> Raises \<Longrightarrow> sel \<in> set sels \<Longrightarrow>
   query_selector_all q sel = Returns inputs \<Longrightarrow> list_ex (attempt_input pg v) inputs \<Longrightarrow>
   direct_inputs pg q v sels = Returns True"
proof (induction sels)
  case Nil
  then show ?case by simp
next
  case (Cons s sels)
  then obtain ins where ins: "query_selector_all q s = Returns ins"
    by (cases "query_selector_all q s") auto
  show ?case
  proof (cases "list_ex (attempt_input pg v) ins")
    case True
    then show ?thesis by (simp add: ins)
  next
    case False
    then have "sel \<noteq> s" using Cons.prems(3,4) ins by auto
    then show ?thesis using Cons False by (simp add: ins)
  qed
qed

lemma fill_field_advanced_success:
  "direct_inputs pg q v input_selectors = Returns True \<Longrightarrow>
   fill_field_advanced pg q v = (Returns True, [DirectInput])"
  by (simp add: fill_field_advanced_def)

text \<open>
  Claim C8. In Strategy 1 of \<open>_fill_field_advanced\<close>, when an input found through one of
  the selectors is visible and the calls from scrolling it into view to the pause after
  typing raise nothing, the attempt on it succeeds whatever \<open>input_value()\<close> then does
  (the typed value, another value, an exception), and the function returns true. (The
  queries of Strategy 1 stand outside the \<open>try\<close>, so they are required not to raise.)
\<close>

theorem C8_typed_counts_as_filled:
  assumes "is_visible inp = Returns True" and "typed_without_exception pg v inp"
    and "sel \<in> set input_selectors" and "query_selector_all q sel = Returns inputs"
    and "inp \<in> set inputs"
    and "\<forall>s\<in>set input_selectors. query_selector_all q s \<noteq> Raises"
  shows "(\<forall>check. attempt_input pg v (inp\<lparr>input_value := check\<rparr>))
         \<and> fst (fill_field_advanced pg q v) = Returns True"
proof -
  have "attempt_input pg v (inp\<lparr>input_value := check\<rparr>)" for check
    using assms(1,2) by (intro attempt_input_typed) (simp_all add: typed_without_exception_def)
  moreover have "attempt_input pg v inp"
    using assms(1,2) by (rule attempt_input_typed)
  then have "list_ex (attempt_input pg v) inputs"
    using assms(5) by (auto simp: list_ex_iff)
  then have "direct_inputs pg q v input_selectors = Returns True"
    using assms(6,3,4) by (intro direct_inputs_success)
  ultimately show ?thesis by (simp add: fill_field_advanced_success)
qed

theorem C8_typed_counts_as_filled_witness:
  "input_value masked_text_box ''9876543210'' = Returns ''(987) 654-3210''
   \<and> attempt_input small_form ''9876543210'' (masked_text_box\<lparr>input_value := (\<lambda>v. Raises)\<rparr>)
   \<and> fst (fill_field_advanced small_form phone_question ''9876543210'') = Returns True"
proof -
  have vis: "is_visible masked_text_box = Returns True"
    and typed: "typed_without_exception small_form ''9876543210'' masked_text_box"
    and sel: "Sel_input_tel \<in> set input_selectors"
    and query: "query_selector_all phone_question Sel_input_tel = Returns [masked_text_box]"
    and mem: "masked_text_box \<in> set [masked_text_box]"
    and shown: "input_value masked_text_box ''9876543210'' = Returns ''(987) 654-3210''"
    by (simp_all add: masked_text_box_def healthy_control_def typed_without_exception_def
        small_form_def input_selectors_def phone_question_def)
  have noraise: "\<forall>s\<in>set input_selectors. query_selector_all phone_question s \<noteq> Raises"
    by (simp add: phone_question_def)
  show ?thesis
    using shown C8_typed_counts_as_filled [OF vis typed sel query mem noraise] by blast
qed

text \<open>
  Claim C2, as stated: a question whose only control is a label with the text of the value
  is not filled by \<open>_fill_field_advanced\<close>, which has no choice-control strategy, and a
  question whose only control is a contenteditable region is not filled by \<open>fill_field\<close>,
  which has no editable-region strategy; the five strategies of the claim fill both.
\<close>

theorem C2_five_strategies_counterexample:
  "fill_field_advanced small_form radio_question ''Male''
     = (Returns False, [DirectInput, Editable, ScriptWrite])
   \<and> spec_fill small_form radio_question ''Male'' = (True, [DirectInput, ChoiceControl])
   \<and> fill_field small_form editable_question ''9876543210''
     = (Returns False, [DirectInput, ChoiceControl, Dropdown])
   \<and> spec_fill small_form editable_question ''9876543210''
     = (True, [DirectInput, ChoiceControl, Dropdown, Editable])"
  by code_simp

lemma fill_field_advanced_in_order:
  "direct_inputs pg q v input_selectors \<noteq> Raises \<Longrightarrow>
   fill_field_advanced pg q v =
     (case try_in_order (sync_strategy pg q v) sync_order of (r, entered) \<Rightarrow> (Returns r, entered))"
  by (cases "direct_inputs pg q v input_selectors")
     (auto simp: fill_field_advanced_def sync_strategy_def sync_order_def)

lemma fill_field_in_order:
  "query_selector_all q Sel_text_inputs \<noteq> Raises \<Longrightarrow>
   fill_field pg q v =
     (case try_in_order (async_strategy pg q v) async_order of (r, entered) \<Rightarrow> (Returns r, entered))"
  by (cases "query_selector_all q Sel_text_inputs")
     (auto simp: fill_field_def async_strategy_def async_order_def text_inputs_def)

text \<open>
  Claim C2, amended. Each filler tries three strategies in a strict order, returns true at
  the first that succeeds and false only after all three failed: \<open>_fill_field_advanced\<close>
  of \<open>form_filler_sync.py\<close> tries direct text inputs, contenteditable regions and the
  script write; \<open>fill_field\<close> of \<open>form_filler.py\<close> tries direct text inputs, choice
  controls (the first label whose text contains the value, case-insensitively, is clicked)
  and dropdowns. The strategies entered are those up to and including the first success.
  An exception of the query for the direct inputs is not caught by either function.
\<close>

theorem C2_three_strategies_in_order:
  "(direct_inputs pg q v input_selectors \<noteq> Raises \<longrightarrow>
      fill_field_advanced pg q v =
        (Returns (list_ex (sync_strategy pg q v) [DirectInput, Editable, ScriptWrite]),
         takeWhile (\<lambda>s. \<not> sync_strategy pg q v s) [DirectInput, Editable, ScriptWrite]
           @ take 1 (dropWhile (\<lambda>s. \<not> sync_strategy pg q v s) [DirectInput, Editable, ScriptWrite])))
   \<and> (direct_inputs pg q v input_selectors = Raises \<longrightarrow>
        fill_field_advanced pg q v = (Raises, [DirectInput]))
   \<and> (query_selector_all q Sel_text_inputs \<noteq> Raises \<longrightarrow>
      fill_field pg q v =
        (Returns (list_ex (async_strategy pg q v) [DirectInput, ChoiceControl, Dropdown]),
         takeWhile (\<lambda>s. \<not> async_strategy pg q v s) [DirectInput, ChoiceControl, Dropdown]
           @ take 1 (dropWhile (\<lambda>s. \<not> async_strategy pg q v s) [DirectInput, ChoiceControl, Dropdown])))
   \<and> (query_selector_all q Sel_text_inputs = Raises \<longrightarrow>
        fill_field pg q v = (Raises, [DirectInput]))"
proof -
  have "fill_field_advanced pg q v = (Raises, [DirectInput])"
    if "direct_inputs pg q v input_selectors = Raises"
    using that by (simp add: fill_field_advanced_def)
  moreover have "fill_field pg q v = (Raises, [DirectInput])"
    if "query_selector_all q Sel_text_inputs = Raises"
    using that by (simp add: fill_field_def)
  ultimately show ?thesis
    using fill_field_advanced_in_order [of pg q v] fill_field_in_order [of q pg v]
    by (simp add: try_in_order_eq sync_order_def async_order_def)
qed

theorem C2_three_strategies_in_order_witness:
  "fill_field_advanced small_form editable_question ''9876543210''
     = (Returns True, [DirectInput, Editable])
   \<and> fill_field small_form radio_question ''male'' = (Returns True, [DirectInput, ChoiceControl])"
proof -
  have b: "query_selector_all radio_question Sel_text_inputs = Returns []"
    by (simp add: radio_question_def empty_question_def)
  have a: "direct_inputs small_form editable_question ''9876543210'' input_selectors = Returns False"
    and c: "map (sync_strategy small_form editable_question ''9876543210'')
              [DirectInput, Editable, ScriptWrite] = [False, True, False]"
    and d: "map (async_strategy small_form radio_question ''male'')
              [DirectInput, ChoiceControl, Dropdown] = [False, True, False]"
    by code_simp+
  show ?thesis
    using a b c d
      C2_three_strategies_in_order [of small_form editable_question "''9876543210''"]
      C2_three_strategies_in_order [of small_form radio_question "''male''"]
    by simp
qed

end
